theory Spec2Isabelle
  imports Complex_Main
begin

section \<open>Exceptions and tables\<close>

text \<open>
  Every exception the two scripts can raise is a value. \<open>RowCountError e n\<close> is the
  \<open>ValueError\<close> of \<open>validate_output\<close>, whose message carries the expected and the
  found row count; \<open>DateValueError\<close> is the \<open>ValueError\<close> of \<open>strptime\<close>;
  \<open>RemoteError\<close> stands for whatever the external CAMS client raises.
\<close>

datatype py_error =
    KeyError string
  | NameError string
  | UnboundLocalError string
  | AttributeError string
  | TypeError string
  | OverflowError
  | DateValueError
  | RowCountError int int
  | OSError string
  | RemoteError string

text \<open>
  A coordinate is a float read from a CSV cell; \<open>None\<close> is the missing value (NaN).
  Only equality of coordinates is ever used.
\<close>

type_synonym coord = "real option"

record location =
  Latitude :: coord
  Longitude :: coord

text \<open>A row of the combined table: the location columns, then the fetched fields.\<close>

record 'p cams_row = location +
  payload :: 'p

section \<open>Calendar dates\<close>

text \<open>
  \<open>datetime.strptime(s, "%Y-%m-%d")\<close> reads three numeric fields from the text and
  builds a \<open>datetime\<close> at midnight; the model starts from the three fields and keeps the
  range checks of the \<open>datetime\<close> type (years 1 to 9999, proleptic Gregorian calendar).
\<close>

record date =
  year :: int
  month :: int
  day :: int

definition is_leap :: "int \<Rightarrow> bool" where
  "is_leap y = (y mod 4 = 0 \<and> (y mod 100 \<noteq> 0 \<or> y mod 400 = 0))"

definition days_in_month :: "int \<Rightarrow> int \<Rightarrow> int" where
  "days_in_month y m =
     (if m = 2 then (if is_leap y then 29 else 28)
      else if m = 4 \<or> m = 6 \<or> m = 9 \<or> m = 11 then 30 else 31)"

definition days_before_year :: "int \<Rightarrow> int" where
  "days_before_year y = (let p = y - 1 in p * 365 + p div 4 - p div 100 + p div 400)"

definition days_before_month :: "int \<Rightarrow> int \<Rightarrow> int" where
  "days_before_month y m =
     [0, 31, 59, 90, 120, 151, 181, 212, 243, 273, 304, 334] ! nat (m - 1)
       + (if m > 2 \<and> is_leap y then 1 else 0)"

definition toordinal :: "date \<Rightarrow> int" where
  "toordinal d = days_before_year (year d) + days_before_month (year d) (month d) + day d"

definition MINYEAR :: int where "MINYEAR = 1"
definition MAXYEAR :: int where "MAXYEAR = 9999"

definition max_ordinal :: int where
  "max_ordinal = toordinal \<lparr>year = MAXYEAR, month = 12, day = 31\<rparr>"

definition valid_date :: "date \<Rightarrow> bool" where
  "valid_date d =
     (MINYEAR \<le> year d \<and> year d \<le> MAXYEAR \<and> 1 \<le> month d \<and> month d \<le> 12
      \<and> 1 \<le> day d \<and> day d \<le> days_in_month (year d) (month d))"

definition strptime :: "date \<Rightarrow> py_error + date" where
  "strptime d = (if valid_date d then Inr d else Inl DateValueError)"

text \<open>
  \<open>d + timedelta(days=1)\<close>, as the ordinal of the resulting day: the sum leaves the
  range of \<open>datetime\<close> after 9999-12-31 and Python raises \<open>OverflowError\<close>.
\<close>

definition plus_one_day :: "date \<Rightarrow> py_error + int" where
  "plus_one_day d =
     (let n = toordinal d + 1 in if n > max_ordinal then Inl OverflowError else Inr n)"

section \<open>The expected row count of validate_output\<close>

text \<open>The dictionary \<open>time_step_ref\<close>; the entry of \<open>1M\<close> is Python's \<open>None\<close>.\<close>

definition time_step_ref :: "string \<rightharpoonup> int option" where
  "time_step_ref =
     [''1min'' \<mapsto> Some 1, ''15min'' \<mapsto> Some 15, ''1h'' \<mapsto> Some 60, ''1M'' \<mapsto> None]"

text \<open>\<open>Series.nunique()\<close>: the number of distinct values, missing values left out.\<close>

definition nunique :: "coord list \<Rightarrow> int" where
  "nunique col = int (length (remdups (List.map_filter (\<lambda>c. c) col)))"

text \<open>
  Lines 153 to 165 of \<open>process_cams_data.py\<close>. The difference of two midnights is a whole
  number of days, so \<open>total_seconds() / 60\<close> and the floor division are exact and are
  computed on integers.
\<close>

definition exp_rows ::
  "('p cams_row) list \<Rightarrow> date \<Rightarrow> date \<Rightarrow> string \<Rightarrow> py_error + int" where
  "exp_rows output_data start_date end_date time_step =
     (let unique_locations = nunique (map Latitude output_data) in
      case strptime start_date of Inl e \<Rightarrow> Inl e | Inr s \<Rightarrow>
      case strptime end_date of Inl e \<Rightarrow> Inl e | Inr en \<Rightarrow>
        if time_step = ''1M'' then
          Inr (((year en - year s) * 12 + (month en - month s) + 1) * unique_locations)
        else
          case plus_one_day en of Inl e \<Rightarrow> Inl e | Inr en1 \<Rightarrow>
            (let time_delta = ((en1 - toordinal s) * 86400) div 60 in
             case time_step_ref time_step of
               None \<Rightarrow> Inl (KeyError time_step)
             | Some None \<Rightarrow> Inl (TypeError ''unsupported operand type(s) for //'')
             | Some (Some m) \<Rightarrow> Inr ((time_delta div m) * unique_locations)))"

section \<open>Programs with exceptions and a trace of actions\<close>

text \<open>
  What a run prints and what it asks of the outside world (the remote service, the CSV
  writer, the file system) is recorded, in order, as a trace of actions. The answers of
  the outside world are the fields of an environment record.
\<close>

datatype msg =
    Cwd
  | Config_values
  | Path string
  | Processing string
  | No_datafile
  | Head
  | Fetch_request coord coord
  | Row_counts int int
  | Saved string
  | Traceback
  | Load_config_error py_error
  | Get_file_error py_error
  | Fetch_error py_error
  | Main_error py_error

record fetch_params =
  p_start_date :: date
  p_end_date :: date
  p_email :: string
  p_identifier :: string
  p_time_step :: string
  p_time_ref :: string
  p_server :: string
  p_timeout :: int

datatype 'p action =
    Print msg
  | Get_cams coord coord fetch_params
  | To_csv string "'p cams_row list"
  | Makedirs string
  | Rename string string

type_synonym ('p, 'a) prog = "'p action list \<Rightarrow> (py_error + 'a) \<times> 'p action list"

definition ret :: "'a \<Rightarrow> ('p, 'a) prog" where
  "ret x = (\<lambda>t. (Inr x, t))"

definition raise :: "py_error \<Rightarrow> ('p, 'a) prog" where
  "raise e = (\<lambda>t. (Inl e, t))"

definition lift :: "py_error + 'a \<Rightarrow> ('p, 'a) prog" where
  "lift r = (\<lambda>t. (r, t))"

definition emit :: "'p action \<Rightarrow> ('p, unit) prog" where
  "emit a = (\<lambda>t. (Inr (), t @ [a]))"

definition bind :: "('p, 'a) prog \<Rightarrow> ('a \<Rightarrow> ('p, 'b) prog) \<Rightarrow> ('p, 'b) prog" where
  "bind m f = (\<lambda>t. case m t of (Inl e, t') \<Rightarrow> (Inl e, t') | (Inr x, t') \<Rightarrow> f x t')"

text \<open>\<open>try: m except Exception as e: h e\<close>\<close>

definition try_except :: "('p, 'a) prog \<Rightarrow> (py_error \<Rightarrow> ('p, 'a) prog) \<Rightarrow> ('p, 'a) prog" where
  "try_except m h = (\<lambda>t. case m t of (Inl e, t') \<Rightarrow> h e t' | (Inr x, t') \<Rightarrow> (Inr x, t'))"

text \<open>
  Reading a name that is bound neither in the function nor in the module raises
  \<open>NameError\<close>. The names \<open>process_cams_data.py\<close> binds at module level are its five
  imports and its five functions.
\<close>

definition module_globals :: "string list" where
  "module_globals =
     [''pvlib'', ''pd'', ''datetime'', ''json'', ''os'',
      ''load_config'', ''get_file_to_process'', ''fetch_cams_data'', ''validate_output'',
      ''main'']"

definition load_name :: "string list \<Rightarrow> string \<Rightarrow> ('p, unit) prog" where
  "load_name locals n =
     (if n \<in> set locals \<or> n \<in> set module_globals then ret () else raise (NameError n))"

section \<open>The environment of a run\<close>

text \<open>
  \<open>config.json\<close> as \<open>load_config\<close> reads it: a field is \<open>None\<close> when the key is
  absent from the file. The values have the types the setup tool writes.
\<close>

record config =
  cfg_sky_type :: "string option"
  cfg_start_date :: "date option"
  cfg_end_date :: "date option"
  cfg_time_step :: "string option"
  cfg_time_reference :: "string option"
  cfg_server_name :: "string option"
  cfg_timeout :: "int option"
  cfg_email :: "string option"
  cfg_unprocessed_folder :: "string option"
  cfg_processed_folder :: "string option"
  cfg_results_folder :: "string option"

text \<open>
  The answers of the outside world. \<open>to_csv\<close> tells for a path whether writing a CSV
  file there fails, and with which exception.
\<close>

record 'p env =
  config_json :: "py_error + config"
  listdir :: "string \<Rightarrow> py_error + string list"
  os_path_join :: "string \<Rightarrow> string \<Rightarrow> string"
  isfile :: "string \<Rightarrow> bool"
  getctime :: "string \<Rightarrow> real"
  read_csv :: "string \<Rightarrow> py_error + location list"
  get_cams :: "coord \<Rightarrow> coord \<Rightarrow> fetch_params \<Rightarrow> py_error + 'p list"
  path_exists :: "string \<Rightarrow> bool"
  to_csv :: "string \<Rightarrow> py_error option"
  today :: string

section \<open>validate_output\<close>

text \<open>The backslash that the script writes between a folder and a file name.\<close>

definition backslash :: char where
  "backslash = CHR 0x5C"

definition output_file_name :: "string \<Rightarrow> string \<Rightarrow> string" where
  "output_file_name output_folder cur_date =
     output_folder @ [backslash] @ ''processed_cams_data_'' @ cur_date @ ''.csv''"

text \<open>
  \<open>cur_date\<close> is today's date as the clock gives it. The call of the CSV writer is
  recorded; when the writer raises, its exception ends the function. The enclosing
  \<open>try ... except Exception as e: raise\<close> re-raises unchanged.
\<close>

definition validate_output ::
  "'p env \<Rightarrow> ('p cams_row) list \<Rightarrow> date \<Rightarrow> date \<Rightarrow> string \<Rightarrow> string \<Rightarrow> ('p, bool) prog" where
  "validate_output env output_data start_date end_date time_step output_folder =
     try_except
       (bind (lift (exp_rows output_data start_date end_date time_step)) (\<lambda>exp_rows'.
          if int (length output_data) = exp_rows' then
            (let cur_date = today env;
                 output_file = output_file_name output_folder cur_date in
             bind (emit (To_csv output_file output_data)) (\<lambda>_.
             bind (lift (case to_csv env output_file of
                           None \<Rightarrow> Inr () | Some err \<Rightarrow> Inl err)) (\<lambda>_.
             bind (emit (Print (Row_counts exp_rows' (int (length output_data))))) (\<lambda>_.
             bind (emit (Print (Saved output_file))) (\<lambda>_.
             ret True)))))
          else raise (RowCountError exp_rows' (int (length output_data)))))
       (\<lambda>e. raise e)"

section \<open>load_config and get_file_to_process\<close>

definition load_config :: "'p env \<Rightarrow> ('p, config) prog" where
  "load_config env =
     try_except (lift (config_json env))
       (\<lambda>e. bind (emit (Print (Load_config_error e))) (\<lambda>_. raise e))"

text \<open>\<open>config[key]\<close>\<close>

definition getitem :: "string \<Rightarrow> 'a option \<Rightarrow> ('p, 'a) prog" where
  "getitem key v = (case v of None \<Rightarrow> raise (KeyError key) | Some x \<Rightarrow> ret x)"

text \<open>
  The files of the folder, sorted by creation time (\<open>list.sort\<close> is stable, as
  \<open>sort_key\<close> is); the first one, or \<open>None\<close> with a message when there is none.
\<close>

definition get_file_to_process :: "'p env \<Rightarrow> string \<Rightarrow> ('p, string option) prog" where
  "get_file_to_process env data_folder =
     try_except
       (bind (lift (listdir env data_folder)) (\<lambda>names.
          (let files = map (os_path_join env data_folder)
                         (filter (\<lambda>f. isfile env (os_path_join env data_folder f)) names);
               files = sort_key (getctime env) files
           in case files of
                f # _ \<Rightarrow> ret (Some f)
              | [] \<Rightarrow> bind (emit (Print No_datafile)) (\<lambda>_. ret None))))
       (\<lambda>e. bind (emit (Print (Get_file_error e))) (\<lambda>_. raise e))"

section \<open>fetch_cams_data\<close>

text \<open>The names bound inside \<open>fetch_cams_data\<close> when its handler runs.\<close>

definition fetch_locals :: "string list" where
  "fetch_locals =
     [''solar_data'', ''start_date'', ''end_date'', ''email'', ''identifier'', ''altitude'',
      ''time_step'', ''time_ref'', ''verbose'', ''integrated'', ''label'', ''map_variables'',
      ''server'', ''timeout'', ''cams_df'', ''idx'', ''row'', ''data'', ''metadata'', ''e'']"

text \<open>\<open>data.insert(0, 'Latitude', ...)\<close> and \<open>data.insert(1, 'Longitude', ...)\<close>\<close>

definition tag_rows :: "location \<Rightarrow> 'p list \<Rightarrow> ('p cams_row) list" where
  "tag_rows row data =
     map (\<lambda>p. \<lparr>Latitude = Latitude row, Longitude = Longitude row, payload = p\<rparr>) data"

text \<open>
  The handler builds its message from \<open>idx\<close>, \<open>latitude\<close>, \<open>longitude\<close> and \<open>e\<close>,
  in that order, before it prints anything; then it re-raises.
\<close>

definition fetch_handler :: "py_error \<Rightarrow> ('p, 'a) prog" where
  "fetch_handler e =
     bind (load_name fetch_locals ''idx'') (\<lambda>_.
     bind (load_name fetch_locals ''latitude'') (\<lambda>_.
     bind (load_name fetch_locals ''longitude'') (\<lambda>_.
     bind (load_name fetch_locals ''e'') (\<lambda>_.
     bind (emit (Print (Fetch_error e))) (\<lambda>_.
     raise e)))))"

fun fetch_loop ::
  "'p env \<Rightarrow> fetch_params \<Rightarrow> location list \<Rightarrow> ('p cams_row) list
     \<Rightarrow> ('p, ('p cams_row) list) prog" where
  "fetch_loop env ps [] cams_df = ret cams_df"
| "fetch_loop env ps (row # rest) cams_df =
     bind
       (try_except
          (bind (emit (Print (Fetch_request (Latitude row) (Longitude row)))) (\<lambda>_.
           bind (emit (Get_cams (Latitude row) (Longitude row) ps)) (\<lambda>_.
           bind (lift (get_cams env (Latitude row) (Longitude row) ps)) (\<lambda>data.
           ret (cams_df @ tag_rows row data)))))
          fetch_handler)
       (\<lambda>cams_df'. fetch_loop env ps rest cams_df')"

definition fetch_cams_data ::
  "'p env \<Rightarrow> location list \<Rightarrow> fetch_params \<Rightarrow> ('p, ('p cams_row) list) prog" where
  "fetch_cams_data env solar_data ps = fetch_loop env ps solar_data []"

section \<open>main of process_cams_data.py\<close>

text \<open>\<open>s.split(c)\<close> for a separator of one character.\<close>

fun split_on :: "char \<Rightarrow> string \<Rightarrow> string list" where
  "split_on c [] = [[]]"
| "split_on c (x # xs) =
     (if x = c then [] # split_on c xs
      else (case split_on c xs of w # ws \<Rightarrow> (x # w) # ws | [] \<Rightarrow> [[x]]))"

text \<open>The names \<open>main\<close> binds.\<close>

definition main_locals :: "string list" where
  "main_locals =
     [''config'', ''sky_type'', ''start_date'', ''end_date'', ''time_step'', ''time_reference'',
      ''server_name'', ''timeout'', ''email'', ''unprocessed_folder'', ''processed_folder'',
      ''results_folder'', ''datafile'', ''file_name'', ''processed_file'', ''solar_data'',
      ''cams_details'', ''status'', ''ex'']"

text \<open>
  The body of the \<open>try\<close> block of \<open>main\<close>. \<open>datafile.split\<close> is the first use of the
  picked file and fails on \<open>None\<close>, so every later line runs with a string. Raising a
  plain string is itself a \<open>TypeError\<close>. The file-system calls that change something
  (\<open>makedirs\<close>, \<open>rename\<close>) are recorded and taken to succeed.
\<close>

definition main_body :: "'p env \<Rightarrow> ('p, unit) prog" where
  "main_body env =
     bind (emit (Print Cwd)) (\<lambda>_.
     bind (load_config env) (\<lambda>config.
     bind (getitem ''sky_type'' (cfg_sky_type config)) (\<lambda>sky_type.
     bind (getitem ''start_date'' (cfg_start_date config)) (\<lambda>start_date.
     bind (getitem ''end_date'' (cfg_end_date config)) (\<lambda>end_date.
     bind (getitem ''time_step'' (cfg_time_step config)) (\<lambda>time_step.
     bind (getitem ''time_reference'' (cfg_time_reference config)) (\<lambda>time_reference.
     bind (getitem ''server_name'' (cfg_server_name config)) (\<lambda>server_name.
     bind (getitem ''timeout'' (cfg_timeout config)) (\<lambda>timeout.
     bind (getitem ''email'' (cfg_email config)) (\<lambda>email.
     bind (getitem ''unprocessed_folder'' (cfg_unprocessed_folder config)) (\<lambda>unprocessed_folder.
     bind (getitem ''processed_folder'' (cfg_processed_folder config)) (\<lambda>processed_folder.
     bind (getitem ''results_folder'' (cfg_results_folder config)) (\<lambda>results_folder.
     bind (emit (Print Config_values)) (\<lambda>_.
     bind (get_file_to_process env unprocessed_folder) (\<lambda>picked.
     case picked of
       None \<Rightarrow> raise (AttributeError ''split'')
     | Some datafile \<Rightarrow>
         (let file_name = split_on backslash datafile;
              processed_file = processed_folder @ [backslash] @ last file_name
          in
          bind (emit (Print (Path processed_file))) (\<lambda>_.
          bind (if datafile \<noteq> [] then emit (Print (Processing datafile))
                else emit (Print No_datafile)) (\<lambda>_.
          bind (lift (read_csv env datafile)) (\<lambda>solar_data.
          bind (emit (Print Head)) (\<lambda>_.
          bind (emit (Print (Path processed_folder))) (\<lambda>_.
          bind (fetch_cams_data env solar_data
                  \<lparr>p_start_date = start_date, p_end_date = end_date, p_email = email,
                   p_identifier = sky_type, p_time_step = time_step,
                   p_time_ref = time_reference, p_server = server_name,
                   p_timeout = timeout\<rparr>) (\<lambda>cams_details.
          bind (if length cams_details = 0
                then raise (TypeError ''exceptions must derive from BaseException'')
                else ret ()) (\<lambda>_.
          bind (validate_output env cams_details start_date end_date time_step
                  results_folder) (\<lambda>status.
          if status then
            bind (if \<not> path_exists env processed_folder
                  then emit (Makedirs processed_folder) else ret ()) (\<lambda>_.
            bind (emit (Print (Path processed_file))) (\<lambda>_.
            emit (Rename datafile processed_file)))
          else ret ()))))))))))))))))))))))))"

text \<open>\<open>except Exception as ex:\<close> print the message, then \<open>traceback.print_exc()\<close>.\<close>

definition main_handler :: "py_error \<Rightarrow> ('p, unit) prog" where
  "main_handler ex =
     bind (load_name main_locals ''ex'') (\<lambda>_.
     bind (emit (Print (Main_error ex))) (\<lambda>_.
     bind (load_name main_locals ''traceback'') (\<lambda>_.
     emit (Print Traceback))))"

definition main :: "'p env \<Rightarrow> ('p, unit) prog" where
  "main env = try_except (main_body env) main_handler"

section \<open>chunk_data of set_up.py\<close>

definition chunk_size :: nat where
  "chunk_size = 100"

text \<open>\<open>range(start, stop, step)\<close> for a positive step.\<close>

function py_range :: "nat \<Rightarrow> nat \<Rightarrow> nat \<Rightarrow> nat list" where
  "py_range start stop step =
     (if 0 < step \<and> start < stop then start # py_range (start + step) stop step else [])"
  by pat_completeness auto
termination
  by (relation "measure (\<lambda>(start, stop, step). stop - start)") auto

declare py_range.simps [simp del]

text \<open>The decimal text of a number, as an f-string prints it.\<close>

definition digit_char :: "nat \<Rightarrow> char" where
  "digit_char d = char_of (48 + d)"

function str_nat :: "nat \<Rightarrow> string" where
  "str_nat n = (if n < 10 then [digit_char n] else str_nat (n div 10) @ [digit_char (n mod 10)])"
  by pat_completeness auto
termination
  by (relation "measure (\<lambda>n. n)") auto

declare str_nat.simps [simp del]

definition chunk_file_name :: "nat \<Rightarrow> string" where
  "chunk_file_name k = ''unprocessed_data_'' @ str_nat k @ ''.csv''"

text \<open>\<open>df.iloc[start:stop]\<close> for \<open>0 \<le> start \<le> stop\<close>: the slice stops at the end of the table.\<close>

definition iloc :: "'r list \<Rightarrow> nat \<Rightarrow> nat \<Rightarrow> 'r list" where
  "iloc df start stop = take (stop - start) (drop start df)"

text \<open>
  The output folder is the map from the names of its files to their rows:
  \<open>os.path.join(output_folder, name)\<close> is the entry \<open>name\<close> of that folder, and
  \<open>to_csv\<close> replaces it. The loop carries the folder and the last value bound to \<open>i\<close>.
\<close>

type_synonym 'r folder = "string \<rightharpoonup> 'r list"

fun chunk_loop ::
  "(nat \<times> nat) list \<Rightarrow> 'r list \<Rightarrow> 'r folder \<Rightarrow> nat option \<Rightarrow> 'r folder \<times> nat option" where
  "chunk_loop [] df output_folder i = (output_folder, i)"
| "chunk_loop ((i, start) # rest) df output_folder _ =
     chunk_loop rest df
       (output_folder(chunk_file_name (i + 1) \<mapsto> iloc df start (start + chunk_size)))
       (Some i)"

text \<open>After the loop, \<open>i + 1\<close> is read: \<open>i\<close> is unbound when the loop never ran.\<close>

definition chunk_data :: "'r list \<Rightarrow> 'r folder \<Rightarrow> (py_error + nat) \<times> 'r folder" where
  "chunk_data solar_farms_data output_folder =
     (case chunk_loop (enumerate 0 (py_range 0 (length solar_farms_data) chunk_size))
             solar_farms_data output_folder None of
        (folder', None) \<Rightarrow> (Inl (UnboundLocalError ''i''), folder')
      | (folder', Some i) \<Rightarrow> (Inr (i + 1), folder'))"

section \<open>Notions of the specification\<close>

text \<open>
  The minutes between the start of \<open>start_date\<close> and the start of the day after
  \<open>end_date\<close>: 1440 for every day from \<open>start_date\<close> to \<open>end_date\<close>, both included.
\<close>

definition inclusive_minutes :: "date \<Rightarrow> date \<Rightarrow> int" where
  "inclusive_minutes s e = (toordinal e + 1 - toordinal s) * 1440"

text \<open>\<open>start <= end\<close> on calendar dates.\<close>

definition date_le :: "date \<Rightarrow> date \<Rightarrow> bool" where
  "date_le s e =
     (year s < year e
      \<or> (year s = year e \<and> (month s < month e \<or> (month s = month e \<and> day s \<le> day e))))"

text \<open>
  A location record has a latitude and a longitude, both required: a table is complete
  when each of its rows carries both.
\<close>

definition complete_rows :: "('p cams_row) list \<Rightarrow> bool" where
  "complete_rows tbl = (\<forall>r\<in>set tbl. Latitude r \<noteq> None \<and> Longitude r \<noteq> None)"

text \<open>No two locations of the table lie on the same latitude.\<close>

definition latitudes_tell_apart :: "('p cams_row) list \<Rightarrow> bool" where
  "latitudes_tell_apart tbl =
     (\<forall>r1\<in>set tbl. \<forall>r2\<in>set tbl. Latitude r1 = Latitude r2 \<longrightarrow> Longitude r1 = Longitude r2)"

text \<open>The number of distinct locations of a table: its distinct (latitude, longitude) pairs.\<close>

definition distinct_locations :: "('p cams_row) list \<Rightarrow> int" where
  "distinct_locations tbl = int (length (remdups (map (\<lambda>r. (Latitude r, Longitude r)) tbl)))"

text \<open>The number of distinct latitude values that occur in a table.\<close>

definition distinct_latitudes :: "('p cams_row) list \<Rightarrow> int" where
  "distinct_latitudes tbl = int (card (Option.these (Latitude ` set tbl)))"

text \<open>
  The actions of trying the rows of a list, one after the other: for each row its printed
  request and its single call of the remote service. \<open>fetched\<close> holds of a row when
  the remote service answers its request with a table.
\<close>

definition attempts :: "fetch_params \<Rightarrow> location list \<Rightarrow> 'p action list" where
  "attempts ps rows =
     concat (map (\<lambda>row. [Print (Fetch_request (Latitude row) (Longitude row)),
                          Get_cams (Latitude row) (Longitude row) ps]) rows)"

definition fetched :: "'p env \<Rightarrow> fetch_params \<Rightarrow> location \<Rightarrow> bool" where
  "fetched env ps row =
     (case get_cams env (Latitude row) (Longitude row) ps of Inl _ \<Rightarrow> False | Inr _ \<Rightarrow> True)"

text \<open>The number that a decimal text denotes.\<close>

definition digits_value :: "string \<Rightarrow> nat" where
  "digits_value s = foldl (\<lambda>acc ch. 10 * acc + (of_char ch - 48)) 0 s"

text \<open>
  The rows read back from the chunk files 1 to \<open>k\<close> of a folder, in index order; a
  file that does not exist contributes nothing.
\<close>

definition read_chunks :: "'r folder \<Rightarrow> nat \<Rightarrow> 'r list" where
  "read_chunks folder k =
     concat (map (\<lambda>i. case folder (chunk_file_name i) of None \<Rightarrow> [] | Some rows \<Rightarrow> rows)
               [1..<Suc k])"

section \<open>Concrete inputs\<close>

definition two_locations :: "(unit cams_row) list" where
  "two_locations =
     [\<lparr>Latitude = Some 1, Longitude = Some 5, payload = ()\<rparr>,
      \<lparr>Latitude = Some 2, Longitude = Some 5, payload = ()\<rparr>]"

definition three_locations :: "(unit cams_row) list" where
  "three_locations =
     [\<lparr>Latitude = Some 1, Longitude = Some 5, payload = ()\<rparr>,
      \<lparr>Latitude = Some 2, Longitude = Some 5, payload = ()\<rparr>,
      \<lparr>Latitude = Some 3, Longitude = Some 5, payload = ()\<rparr>]"

definition one_row :: "(unit cams_row) list" where
  "one_row = [\<lparr>Latitude = Some 1, Longitude = Some 5, payload = ()\<rparr>]"

text \<open>Two locations on the same latitude.\<close>

definition shared_latitude :: "(unit cams_row) list" where
  "shared_latitude =
     [\<lparr>Latitude = Some 1, Longitude = Some 5, payload = ()\<rparr>,
      \<lparr>Latitude = Some 1, Longitude = Some 6, payload = ()\<rparr>]"

text \<open>Two locations with a row for each of the 24 hours of a day.\<close>

definition hourly_rows :: "(unit cams_row) list" where
  "hourly_rows = concat (replicate 24 two_locations)"

text \<open>Two locations on the same latitude with a row for each of three months.\<close>

definition shared_latitude_months :: "(unit cams_row) list" where
  "shared_latitude_months = concat (replicate 3 shared_latitude)"

text \<open>A complete configuration, and the request parameters \<open>main\<close> builds from it.\<close>

definition demo_config :: config where
  "demo_config =
     \<lparr>cfg_sky_type = Some ''mcclear'',
      cfg_start_date = Some \<lparr>year = 2023, month = 1, day = 1\<rparr>,
      cfg_end_date = Some \<lparr>year = 2023, month = 1, day = 1\<rparr>,
      cfg_time_step = Some ''1h'',
      cfg_time_reference = Some ''UT'',
      cfg_server_name = Some ''api.soda-solardata.com'',
      cfg_timeout = Some 30,
      cfg_email = Some ''user@example.org'',
      cfg_unprocessed_folder = Some ''unprocessed'',
      cfg_processed_folder = Some ''processed'',
      cfg_results_folder = Some ''results''\<rparr>"

definition demo_params :: fetch_params where
  "demo_params =
     \<lparr>p_start_date = \<lparr>year = 2023, month = 1, day = 1\<rparr>,
      p_end_date = \<lparr>year = 2023, month = 1, day = 1\<rparr>,
      p_email = ''user@example.org'', p_identifier = ''mcclear'', p_time_step = ''1h'',
      p_time_ref = ''UT'', p_server = ''api.soda-solardata.com'', p_timeout = 30\<rparr>"

text \<open>A run whose unprocessed folder holds no entry.\<close>

definition empty_folder_env :: "unit env" where
  "empty_folder_env =
     \<lparr>config_json = Inr demo_config,
      listdir = (\<lambda>d. Inr []),
      os_path_join = (\<lambda>a b. a @ [backslash] @ b),
      isfile = (\<lambda>f. True),
      getctime = (\<lambda>f. 0),
      read_csv = (\<lambda>f. Inl (OSError ''No such file or directory'')),
      get_cams = (\<lambda>lat lon ps. Inr [()]),
      path_exists = (\<lambda>d. True),
      to_csv = (\<lambda>f. None),
      today = ''2026-11-04''\<rparr>"

text \<open>A run whose only pending file has a header line and no rows.\<close>

definition header_only_env :: "unit env" where
  "header_only_env =
     \<lparr>config_json = Inr demo_config,
      listdir = (\<lambda>d. Inr [''unprocessed_data_1.csv'']),
      os_path_join = (\<lambda>a b. a @ [backslash] @ b),
      isfile = (\<lambda>f. True),
      getctime = (\<lambda>f. 0),
      read_csv = (\<lambda>f. Inr []),
      get_cams = (\<lambda>lat lon ps. Inr [()]),
      path_exists = (\<lambda>d. True),
      to_csv = (\<lambda>f. None),
      today = ''2026-11-04''\<rparr>"

text \<open>A run without a readable \<open>config.json\<close>.\<close>

definition no_config_env :: "unit env" where
  "no_config_env =
     \<lparr>config_json = Inl (OSError ''config.json''),
      listdir = (\<lambda>d. Inr []),
      os_path_join = (\<lambda>a b. a @ [backslash] @ b),
      isfile = (\<lambda>f. True),
      getctime = (\<lambda>f. 0),
      read_csv = (\<lambda>f. Inr []),
      get_cams = (\<lambda>lat lon ps. Inr [()]),
      path_exists = (\<lambda>d. True),
      to_csv = (\<lambda>f. None),
      today = ''2026-11-04''\<rparr>"

text \<open>A remote service that fails for latitude 2, and three locations to fetch.\<close>

definition failing_env :: "unit env" where
  "failing_env =
     \<lparr>config_json = Inr demo_config,
      listdir = (\<lambda>d. Inr [''unprocessed_data_1.csv'']),
      os_path_join = (\<lambda>a b. a @ [backslash] @ b),
      isfile = (\<lambda>f. True),
      getctime = (\<lambda>f. 0),
      read_csv = (\<lambda>f. Inr []),
      get_cams = (\<lambda>lat lon ps. if lat = Some 2 then Inl (RemoteError ''timed out'')
                                  else Inr [()]),
      path_exists = (\<lambda>d. True),
      to_csv = (\<lambda>f. None),
      today = ''2026-11-04''\<rparr>"

definition three_rows :: "location list" where
  "three_rows =
     [\<lparr>Latitude = Some 1, Longitude = Some 5\<rparr>,
      \<lparr>Latitude = Some 2, Longitude = Some 5\<rparr>,
      \<lparr>Latitude = Some 3, Longitude = Some 5\<rparr>]"

text \<open>A table of 250 rows: the numbers 0 to 249.\<close>

definition numbered_rows :: "nat list" where
  "numbered_rows = [0..<250]"

section \<open>Properties of the calendar\<close>

lemma max_ordinal_value: "max_ordinal = 3652059"
  by (simp add: max_ordinal_def toordinal_def days_before_year_def days_before_month_def
      is_leap_def MAXYEAR_def)

lemma dbm_bound:
  assumes "1 \<le> m" and "m \<le> 12" and "1 \<le> d" and "d \<le> days_in_month y m"
  shows "days_before_month y m + d \<le> 365 + (if is_leap y then 1 else 0)
    \<and> (days_before_month y m + d = 365 + (if is_leap y then 1 else 0) \<longrightarrow> m = 12 \<and> d = 31)"
proof -
  from assms(1,2) have "m = 1 \<or> m = 2 \<or> m = 3 \<or> m = 4 \<or> m = 5 \<or> m = 6 \<or> m = 7
      \<or> m = 8 \<or> m = 9 \<or> m = 10 \<or> m = 11 \<or> m = 12"
    by arith
  then show ?thesis
    using assms(3,4) by (auto simp: days_before_month_def days_in_month_def)
qed

lemma days_before_year_bound:
  assumes "1 \<le> y" and "y \<le> 9998"
  shows "days_before_year y + 366 < 3652059"
proof -
  define p where "p = y - 1"
  have a: "p = 4 * (p div 4) + p mod 4" "0 \<le> p mod 4" by simp_all
  have b: "p = 100 * (p div 100) + p mod 100" "p mod 100 < 100" by simp_all
  have c: "p = 400 * (p div 400) + p mod 400" "0 \<le> p mod 400" by simp_all
  have "p \<le> 9997" using assms(2) by (simp add: p_def)
  then have "p * 365 + p div 4 - p div 100 + p div 400 + 366 < 3652059"
    using a b c by linarith
  then show ?thesis by (simp add: days_before_year_def p_def Let_def)
qed

lemma toordinal_max:
  assumes "valid_date e"
  shows "toordinal e \<le> max_ordinal"
    and "toordinal e = max_ordinal \<Longrightarrow> e = \<lparr>year = 9999, month = 12, day = 31\<rparr>"
proof -
  from assms have v: "1 \<le> year e" "year e \<le> 9999" "1 \<le> month e" "month e \<le> 12"
    "1 \<le> day e" "day e \<le> days_in_month (year e) (month e)"
    by (simp_all add: valid_date_def MINYEAR_def MAXYEAR_def)
  let ?l = "if is_leap (year e) then 1 else (0::int)"
  from dbm_bound [OF v(3-6)]
  have b: "days_before_month (year e) (month e) + day e \<le> 365 + ?l"
    and beq: "days_before_month (year e) (month e) + day e = 365 + ?l \<Longrightarrow>
      month e = 12 \<and> day e = 31"
    by blast+
  have l: "?l \<le> 1" by simp
  have both: "toordinal e \<le> max_ordinal
      \<and> (toordinal e = max_ordinal \<longrightarrow> year e = 9999 \<and> month e = 12 \<and> day e = 31)"
  proof (cases "year e = 9999")
    case True
    have nl: "\<not> is_leap 9999" by (simp add: is_leap_def)
    have y: "days_before_year 9999 = 3651694" by (simp add: days_before_year_def)
    from b nl True have b': "days_before_month 9999 (month e) + day e \<le> 365" by simp
    from beq nl True have beq': "days_before_month 9999 (month e) + day e = 365 \<Longrightarrow>
        month e = 12 \<and> day e = 31" by simp
    have t: "toordinal e = 3651694 + (days_before_month 9999 (month e) + day e)"
      using True y by (simp add: toordinal_def)
    show ?thesis
    proof (intro conjI impI)
      show "toordinal e \<le> max_ordinal" using t b' by (simp add: max_ordinal_value)
      assume "toordinal e = max_ordinal"
      then have "days_before_month 9999 (month e) + day e = 365"
        using t by (simp add: max_ordinal_value)
      from beq' [OF this] True show "year e = 9999" "month e = 12" "day e = 31" by simp_all
    qed
  next
    case False
    then have "year e \<le> 9998" using v(2) by simp
    from days_before_year_bound [OF v(1) this] b l
    have "toordinal e < max_ordinal"
      unfolding toordinal_def max_ordinal_value by linarith
    then show ?thesis by simp
  qed
  from both show "toordinal e \<le> max_ordinal" by blast
  assume "toordinal e = max_ordinal"
  with both have "year e = 9999 \<and> month e = 12 \<and> day e = 31" by blast
  then show "e = \<lparr>year = 9999, month = 12, day = 31\<rparr>" by simp
qed

lemma plus_one_day_valid:
  assumes "valid_date e"
  shows "plus_one_day e =
       (if e = \<lparr>year = 9999, month = 12, day = 31\<rparr> then Inl OverflowError
        else Inr (toordinal e + 1))"
proof (cases "e = \<lparr>year = 9999, month = 12, day = 31\<rparr>")
  case True
  then have "toordinal e = max_ordinal" by (simp add: max_ordinal_def MAXYEAR_def)
  then show ?thesis using True by (simp add: plus_one_day_def Let_def)
next
  case False
  with toordinal_max [OF assms] have "toordinal e < max_ordinal" by fastforce
  then show ?thesis using False by (simp add: plus_one_day_def Let_def)
qed

lemma valid_2023_01_01: "valid_date \<lparr>year = 2023, month = 1, day = 1\<rparr>"
  by (simp add: valid_date_def days_in_month_def MINYEAR_def MAXYEAR_def)

lemma valid_9999_12_31: "valid_date \<lparr>year = 9999, month = 12, day = 31\<rparr>"
  by (simp add: valid_date_def days_in_month_def MINYEAR_def MAXYEAR_def)

section \<open>Counting locations\<close>

lemma nunique_card: "nunique col = int (card {v. Some v \<in> set col})"
proof -
  have "set (List.map_filter (\<lambda>c. c) col) = {v. Some v \<in> set col}"
    by (induction col) (auto split: option.splits)
  then show ?thesis
    by (simp add: nunique_def length_remdups_card_conv)
qed

lemma distinct_locations_card:
  "distinct_locations tbl = int (card ((\<lambda>r. (Latitude r, Longitude r)) ` set tbl))"
  by (simp add: distinct_locations_def length_remdups_card_conv)

lemma card_image_less:
  assumes "finite A" and "x \<in> A" and "y \<in> A" and "x \<noteq> y" and "f x = f y"
  shows "card (f ` A) < card A"
proof -
  have "\<not> inj_on f A" using assms(2-5) by (auto simp: inj_on_def)
  then have "card (f ` A) \<noteq> card A" using eq_card_imp_inj_on [OF assms(1)] by blast
  moreover have "card (f ` A) \<le> card A" by (rule card_image_le [OF assms(1)])
  ultimately show ?thesis by simp
qed

lemma nunique_distinct_latitudes: "nunique (map Latitude tbl) = distinct_latitudes tbl"
proof -
  have "{v. Some v \<in> set (map Latitude tbl)} = Option.these (Latitude ` set tbl)"
    by (auto simp: Option.in_these_eq)
  then show ?thesis by (simp add: nunique_card distinct_latitudes_def)
qed

lemma distinct_latitudes_less:
  assumes "r1 \<in> set tbl" and "r2 \<in> set tbl"
    and "Latitude r1 = Latitude r2" and "Longitude r1 \<noteq> Longitude r2"
  shows "distinct_latitudes tbl < distinct_locations tbl"
proof -
  let ?P = "(\<lambda>r. (Latitude r, Longitude r)) ` set tbl"
  let ?L = "Option.these (Latitude ` set tbl)"
  have sub: "Some ` ?L \<subseteq> fst ` ?P" by (force simp: Option.in_these_eq)
  have "card ?L = card (Some ` ?L)" by (simp add: card_image)
  also have "\<dots> \<le> card (fst ` ?P)" by (rule card_mono [OF _ sub]) simp
  also have "\<dots> < card ?P"
  proof (rule card_image_less)
    show "finite ?P" by simp
    show "(Latitude r1, Longitude r1) \<in> ?P" using assms(1) by blast
    show "(Latitude r2, Longitude r2) \<in> ?P" using assms(2) by blast
    show "(Latitude r1, Longitude r1) \<noteq> (Latitude r2, Longitude r2)" using assms(4) by simp
    show "fst (Latitude r1, Longitude r1) = fst (Latitude r2, Longitude r2)"
      using assms(3) by simp
  qed
  finally show ?thesis by (simp add: distinct_latitudes_def distinct_locations_card)
qed

lemma distinct_latitudes_eq_locations:
  assumes "complete_rows tbl" and "latitudes_tell_apart tbl"
  shows "distinct_latitudes tbl = distinct_locations tbl"
proof -
  let ?P = "(\<lambda>r. (Latitude r, Longitude r)) ` set tbl"
  let ?L = "Option.these (Latitude ` set tbl)"
  have inj: "inj_on fst ?P"
  proof (rule inj_onI)
    fix p q assume p: "p \<in> ?P" and q: "q \<in> ?P" and eq: "fst p = fst q"
    from p obtain r1 where r1: "r1 \<in> set tbl" "p = (Latitude r1, Longitude r1)" by blast
    from q obtain r2 where r2: "r2 \<in> set tbl" "q = (Latitude r2, Longitude r2)" by blast
    from eq have l: "Latitude r1 = Latitude r2" by (simp add: r1(2) r2(2))
    from assms(2) r1(1) r2(1) l have "Longitude r1 = Longitude r2"
      unfolding latitudes_tell_apart_def by blast
    with l show "p = q" by (simp add: r1(2) r2(2))
  qed
  have nn: "None \<notin> Latitude ` set tbl"
    using assms(1) unfolding complete_rows_def by force
  have "{x \<in> Latitude ` set tbl. x \<noteq> None} = Latitude ` set tbl"
  proof (rule equalityI)
    show "{x \<in> Latitude ` set tbl. x \<noteq> None} \<subseteq> Latitude ` set tbl"
      by (rule Collect_restrict)
    show "Latitude ` set tbl \<subseteq> {x \<in> Latitude ` set tbl. x \<noteq> None}"
    proof
      fix x assume x: "x \<in> Latitude ` set tbl"
      with nn have "x \<noteq> None" by (cases "x = None") simp_all
      with x show "x \<in> {x \<in> Latitude ` set tbl. x \<noteq> None}" by simp
    qed
  qed
  then have a: "Some ` ?L = Latitude ` set tbl"
    by (simp only: Option.Some_image_these_eq)
  have b: "fst ` ?P = Latitude ` set tbl"
    by (simp only: image_image fst_conv)
  have "card ?L = card (Some ` ?L)" by (simp add: card_image)
  also have "\<dots> = card (fst ` ?P)" by (simp only: a b)
  also have "\<dots> = card ?P" by (rule card_image [OF inj])
  finally show ?thesis by (simp add: distinct_latitudes_def distinct_locations_card)
qed

lemma exp_rows_latitudes_only:
  "map Latitude tbl' = map Latitude tbl \<Longrightarrow> exp_rows tbl' s e step = exp_rows tbl s e step"
  by (simp add: exp_rows_def)

section \<open>The row-count check\<close>

lemma validate_output_unfold:
  "validate_output env tbl s e step folder t =
     (case exp_rows tbl s e step of
        Inl err \<Rightarrow> (Inl err, t)
      | Inr n \<Rightarrow>
          if int (length tbl) = n then
            (case to_csv env (output_file_name folder (today env)) of
               None \<Rightarrow>
                 (Inr True, t @ [To_csv (output_file_name folder (today env)) tbl,
                                 Print (Row_counts n (int (length tbl))),
                                 Print (Saved (output_file_name folder (today env)))])
             | Some err \<Rightarrow> (Inl err, t @ [To_csv (output_file_name folder (today env)) tbl]))
          else (Inl (RowCountError n (int (length tbl))), t))"
  by (simp add: validate_output_def try_except_def bind_def lift_def emit_def ret_def raise_def
      Let_def split: sum.splits option.splits)

lemma exp_rows_subdaily:
  assumes "valid_date s" and "valid_date e"
    and "(step, m) \<in> {(''1min'', 1), (''15min'', 15), (''1h'', 60)}"
  shows "exp_rows tbl s e step =
    (if e = \<lparr>year = 9999, month = 12, day = 31\<rparr> then Inl OverflowError
     else Inr (distinct_latitudes tbl * (inclusive_minutes s e div m)))"
proof -
  have d: "((toordinal e + 1 - toordinal s) * 86400) div 60 = inclusive_minutes s e"
    by (simp add: inclusive_minutes_def)
  from assms(3) have r: "time_step_ref step = Some (Some m)" and n: "step \<noteq> ''1M''"
    by (auto simp: time_step_ref_def)
  show ?thesis
    unfolding exp_rows_def Let_def strptime_def nunique_distinct_latitudes
    using assms(1,2) r n d by (simp add: plus_one_day_valid mult.commute)
qed

lemma exp_rows_monthly:
  assumes "valid_date s" and "valid_date e"
  shows "exp_rows tbl s e ''1M'' =
    Inr (((year e - year s) * 12 + (month e - month s) + 1) * distinct_latitudes tbl)"
  using assms by (simp add: exp_rows_def strptime_def Let_def nunique_distinct_latitudes)

lemma exp_rows_1d:
  assumes "valid_date s" and "valid_date e"
  shows "exp_rows tbl s e ''1d'' =
    Inl (if e = \<lparr>year = 9999, month = 12, day = 31\<rparr> then OverflowError else KeyError ''1d'')"
proof -
  have k: "time_step_ref ''1d'' = None" by (simp add: time_step_ref_def)
  show ?thesis
    using assms k by (simp add: exp_rows_def strptime_def Let_def plus_one_day_valid)
qed

lemma valid_2023_01_15: "valid_date \<lparr>year = 2023, month = 1, day = 15\<rparr>"
  by (simp add: valid_date_def days_in_month_def MINYEAR_def MAXYEAR_def)

lemma valid_2023_03_15: "valid_date \<lparr>year = 2023, month = 3, day = 15\<rparr>"
  by (simp add: valid_date_def days_in_month_def MINYEAR_def MAXYEAR_def)

subsection \<open>The tables of the examples\<close>

lemma locations_two_locations:
  "(\<lambda>r. (Latitude r, Longitude r)) ` set two_locations = {(Some 1, Some 5), (Some 2, Some 5)}"
  "Latitude ` set two_locations = {Some 1, Some 2}"
  by (auto simp: two_locations_def)

lemma counts_two_locations:
  "distinct_locations two_locations = 2" "distinct_latitudes two_locations = 1 + 1"
  by (simp_all add: distinct_locations_card distinct_latitudes_def locations_two_locations
      Option.these_insert_Some)

lemma set_hourly_rows: "set hourly_rows = set two_locations"
  by (simp add: hourly_rows_def)

lemma length_hourly_rows: "length hourly_rows = 48"
  by (simp add: hourly_rows_def two_locations_def length_concat sum_list_replicate)

lemma counts_hourly_rows:
  "distinct_locations hourly_rows = 2" "complete_rows hourly_rows"
  "latitudes_tell_apart hourly_rows"
  by (auto simp: distinct_locations_card complete_rows_def latitudes_tell_apart_def
      set_hourly_rows locations_two_locations(1)) (auto simp: two_locations_def)

lemma locations_shared_latitude:
  "(\<lambda>r. (Latitude r, Longitude r)) ` set shared_latitude = {(Some 1, Some 5), (Some 1, Some 6)}"
  "Latitude ` set shared_latitude = {Some 1}"
  by (auto simp: shared_latitude_def)

lemma counts_shared_latitude:
  "distinct_locations shared_latitude = 2" "distinct_latitudes shared_latitude = 1"
  by (simp_all add: distinct_locations_card distinct_latitudes_def locations_shared_latitude
      Option.these_insert_Some)

lemma set_shared_latitude_months: "set shared_latitude_months = set shared_latitude"
  by (simp add: shared_latitude_months_def)

lemma counts_shared_latitude_months:
  "distinct_locations shared_latitude_months = 2" "distinct_latitudes shared_latitude_months = 1"
  "length shared_latitude_months = 6"
  by (simp_all add: distinct_locations_card distinct_latitudes_def set_shared_latitude_months
      locations_shared_latitude Option.these_insert_Some)
    (simp add: shared_latitude_months_def shared_latitude_def length_concat sum_list_replicate)

lemma locations_three_locations:
  "(\<lambda>r. (Latitude r, Longitude r)) ` set three_locations
     = {(Some 1, Some 5), (Some 2, Some 5), (Some 3, Some 5)}"
  "Latitude ` set three_locations = {Some 1, Some 2, Some 3}"
  by (auto simp: three_locations_def)

lemma counts_three_locations:
  "distinct_locations three_locations = 3" "distinct_latitudes three_locations = 3"
  by (simp_all add: distinct_locations_card distinct_latitudes_def locations_three_locations
      Option.these_insert_Some)

lemma counts_one_row: "distinct_latitudes one_row = 1" "length one_row = 1"
  by (simp_all add: distinct_latitudes_def one_row_def Option.these_insert_Some)

subsection \<open>Sub-daily steps\<close>

text \<open>
  Claim C1, as amended. Take valid dates with \<open>start_date <= end_date\<close>, a step of 1min,
  15min or 1h (1, 15 or 60 minutes) and a complete table in which no two locations lie on
  the same latitude. When \<open>end_date\<close> is before 9999-12-31, the expected row count that
  \<open>validate_output\<close> computes is the number of distinct locations of the table times the
  floor of the minutes from the start of \<open>start_date\<close> to the start of the day after
  \<open>end_date\<close> divided by the minutes of the step: with that many rows the table goes to
  the CSV writer, with another number the error raised carries this count. At 9999-12-31
  the day after \<open>end_date\<close> does not exist and the call raises \<open>OverflowError\<close>.
\<close>

theorem C1_expected_rows_subdaily:
  assumes "valid_date s" and "valid_date e" and "date_le s e"
    and "(step, m) \<in> {(''1min'', 1), (''15min'', 15), (''1h'', 60)}"
    and "complete_rows tbl" and "latitudes_tell_apart tbl"
    and "n = distinct_locations tbl * (inclusive_minutes s e div m)"
  shows "exp_rows tbl s e step =
      (if e = \<lparr>year = 9999, month = 12, day = 31\<rparr> then Inl OverflowError else Inr n)
    \<and> validate_output env tbl s e step folder t =
        (if e = \<lparr>year = 9999, month = 12, day = 31\<rparr> then (Inl OverflowError, t)
         else if int (length tbl) = n then
           (case to_csv env (output_file_name folder (today env)) of
              None \<Rightarrow>
                (Inr True, t @ [To_csv (output_file_name folder (today env)) tbl,
                                Print (Row_counts n (int (length tbl))),
                                Print (Saved (output_file_name folder (today env)))])
            | Some err \<Rightarrow> (Inl err, t @ [To_csv (output_file_name folder (today env)) tbl]))
         else (Inl (RowCountError n (int (length tbl))), t))"
proof -
  have "distinct_latitudes tbl = distinct_locations tbl"
    by (rule distinct_latitudes_eq_locations [OF assms(5,6)])
  with exp_rows_subdaily [OF assms(1,2,4), of tbl] assms(7)
  have x: "exp_rows tbl s e step =
      (if e = \<lparr>year = 9999, month = 12, day = 31\<rparr> then Inl OverflowError else Inr n)"
    by simp
  show ?thesis
    by (simp add: x validate_output_unfold)
qed

text \<open>
  Two locations with 24 rows each, \<open>start_date = end_date = 2023-01-01\<close>, step 1h: the
  expected count is 48, and the 48 rows are saved.
\<close>

theorem C1_expected_rows_subdaily_witness:
  "valid_date \<lparr>year = 2023, month = 1, day = 1\<rparr>
   \<and> date_le \<lparr>year = 2023, month = 1, day = 1\<rparr> \<lparr>year = 2023, month = 1, day = 1\<rparr>
   \<and> complete_rows hourly_rows \<and> latitudes_tell_apart hourly_rows
   \<and> distinct_locations hourly_rows = 2
   \<and> exp_rows hourly_rows \<lparr>year = 2023, month = 1, day = 1\<rparr>
         \<lparr>year = 2023, month = 1, day = 1\<rparr> ''1h'' = Inr 48
   \<and> validate_output empty_folder_env hourly_rows \<lparr>year = 2023, month = 1, day = 1\<rparr>
         \<lparr>year = 2023, month = 1, day = 1\<rparr> ''1h'' ''results'' []
       = (Inr True,
          [To_csv (''results'' @ [backslash] @ ''processed_cams_data_2026-11-04.csv'') hourly_rows,
           Print (Row_counts 48 48),
           Print (Saved (''results'' @ [backslash] @ ''processed_cams_data_2026-11-04.csv''))])"
proof -
  let ?d = "\<lparr>year = 2023, month = 1, day = 1\<rparr>"
  have le: "date_le ?d ?d" by (simp add: date_le_def)
  have n: "(48::int) = distinct_locations hourly_rows * (inclusive_minutes ?d ?d div 60)"
    by (simp add: counts_hourly_rows(1) inclusive_minutes_def)
  have st: "(''1h'', 60::int) \<in> {(''1min'', 1), (''15min'', 15), (''1h'', 60)}" by simp
  have w: "to_csv empty_folder_env = (\<lambda>f. None)"
    "output_file_name ''results'' (today empty_folder_env)
       = ''results'' @ [backslash] @ ''processed_cams_data_2026-11-04.csv''"
    by (simp_all add: empty_folder_env_def output_file_name_def)
  from C1_expected_rows_subdaily [OF valid_2023_01_01 valid_2023_01_01 le st
      counts_hourly_rows(2,3) n, of empty_folder_env "''results''" "[]"]
  have "exp_rows hourly_rows ?d ?d ''1h'' = Inr 48
     \<and> validate_output empty_folder_env hourly_rows ?d ?d ''1h'' ''results'' []
       = (Inr True,
          [To_csv (''results'' @ [backslash] @ ''processed_cams_data_2026-11-04.csv'') hourly_rows,
           Print (Row_counts 48 48),
           Print (Saved (''results'' @ [backslash] @ ''processed_cams_data_2026-11-04.csv''))])"
    by (simp add: length_hourly_rows w)
  with valid_2023_01_01 le counts_hourly_rows show ?thesis by simp
qed

text \<open>
  Claim C1 as stated fails in two places. At \<open>end_date = 9999-12-31\<close>, a valid date, the
  day after it is outside the range of \<open>datetime\<close> and no expected count is computed.
  And for two locations on the same latitude, on 2023-01-01 with the step 1h, the expected
  count computed is 24, where two locations times 24 hours are 48.
\<close>

theorem C1_counterexample:
  "valid_date \<lparr>year = 9999, month = 12, day = 31\<rparr>
   \<and> date_le \<lparr>year = 9999, month = 12, day = 31\<rparr> \<lparr>year = 9999, month = 12, day = 31\<rparr>
   \<and> exp_rows two_locations \<lparr>year = 9999, month = 12, day = 31\<rparr>
         \<lparr>year = 9999, month = 12, day = 31\<rparr> ''1h'' = Inl OverflowError
   \<and> exp_rows two_locations \<lparr>year = 9999, month = 12, day = 31\<rparr>
         \<lparr>year = 9999, month = 12, day = 31\<rparr> ''1h''
       \<noteq> Inr (distinct_locations two_locations
               * (inclusive_minutes \<lparr>year = 9999, month = 12, day = 31\<rparr>
                    \<lparr>year = 9999, month = 12, day = 31\<rparr> div 60))
   \<and> valid_date \<lparr>year = 2023, month = 1, day = 1\<rparr>
   \<and> date_le \<lparr>year = 2023, month = 1, day = 1\<rparr> \<lparr>year = 2023, month = 1, day = 1\<rparr>
   \<and> distinct_locations shared_latitude = 2
   \<and> inclusive_minutes \<lparr>year = 2023, month = 1, day = 1\<rparr>
         \<lparr>year = 2023, month = 1, day = 1\<rparr> div 60 = 24
   \<and> exp_rows shared_latitude \<lparr>year = 2023, month = 1, day = 1\<rparr>
         \<lparr>year = 2023, month = 1, day = 1\<rparr> ''1h'' = Inr 24
   \<and> exp_rows shared_latitude \<lparr>year = 2023, month = 1, day = 1\<rparr>
         \<lparr>year = 2023, month = 1, day = 1\<rparr> ''1h''
       \<noteq> Inr (distinct_locations shared_latitude
               * (inclusive_minutes \<lparr>year = 2023, month = 1, day = 1\<rparr>
                    \<lparr>year = 2023, month = 1, day = 1\<rparr> div 60))"
proof -
  let ?m = "\<lparr>year = 9999, month = 12, day = 31\<rparr>"
  let ?d = "\<lparr>year = 2023, month = 1, day = 1\<rparr>"
  have st: "(''1h'', 60::int) \<in> {(''1min'', 1), (''15min'', 15), (''1h'', 60)}" by simp
  have a: "exp_rows two_locations ?m ?m ''1h'' = Inl OverflowError"
    using exp_rows_subdaily [OF valid_9999_12_31 valid_9999_12_31 st, of two_locations] by simp
  have i: "inclusive_minutes ?d ?d div 60 = 24" by (simp add: inclusive_minutes_def)
  have b: "exp_rows shared_latitude ?d ?d ''1h'' = Inr 24"
    using exp_rows_subdaily [OF valid_2023_01_01 valid_2023_01_01 st, of shared_latitude]
    by (simp add: counts_shared_latitude(2) i)
  have le: "date_le ?m ?m" "date_le ?d ?d" by (simp_all add: date_le_def)
  from a b i le valid_9999_12_31 valid_2023_01_01 show ?thesis
    by (simp add: counts_shared_latitude(1))
qed

subsection \<open>The monthly step\<close>

text \<open>
  Claim C3, on the code. Three locations on three latitudes, from 2023-01-15 to 2023-03-15
  with the step 1M: the expected count is 9, as the claim has it. But for two locations on
  one latitude over the same three months the code expects 3 rows where the claim gives
  \<open>3 * 2 = 6\<close>, and the complete table of 6 rows is refused with the counts 3 and 6:
  the months are multiplied by the number of distinct latitudes, not of distinct locations.
\<close>

theorem C3_monthly_count_by_latitude:
  "distinct_locations three_locations = 3
   \<and> exp_rows three_locations \<lparr>year = 2023, month = 1, day = 15\<rparr>
         \<lparr>year = 2023, month = 3, day = 15\<rparr> ''1M'' = Inr 9
   \<and> distinct_locations shared_latitude_months = 2
   \<and> exp_rows shared_latitude_months \<lparr>year = 2023, month = 1, day = 15\<rparr>
         \<lparr>year = 2023, month = 3, day = 15\<rparr> ''1M'' = Inr 3
   \<and> exp_rows shared_latitude_months \<lparr>year = 2023, month = 1, day = 15\<rparr>
         \<lparr>year = 2023, month = 3, day = 15\<rparr> ''1M''
       \<noteq> Inr (((2023 - 2023) * 12 + (3 - 1) + 1) * distinct_locations shared_latitude_months)
   \<and> validate_output empty_folder_env shared_latitude_months
         \<lparr>year = 2023, month = 1, day = 15\<rparr> \<lparr>year = 2023, month = 3, day = 15\<rparr>
         ''1M'' ''results'' []
       = (Inl (RowCountError 3 6), [])"
proof -
  let ?s = "\<lparr>year = 2023, month = 1, day = 15\<rparr>"
  let ?e = "\<lparr>year = 2023, month = 3, day = 15\<rparr>"
  have a: "exp_rows three_locations ?s ?e ''1M'' = Inr 9"
    using exp_rows_monthly [OF valid_2023_01_15 valid_2023_03_15, of three_locations]
    by (simp add: counts_three_locations(2))
  have b: "exp_rows shared_latitude_months ?s ?e ''1M'' = Inr 3"
    using exp_rows_monthly [OF valid_2023_01_15 valid_2023_03_15, of shared_latitude_months]
    by (simp add: counts_shared_latitude_months(2))
  have c: "validate_output empty_folder_env shared_latitude_months ?s ?e ''1M'' ''results'' []
       = (Inl (RowCountError 3 6), [])"
    by (simp add: validate_output_unfold b counts_shared_latitude_months(3))
  from a b c show ?thesis
    by (simp add: counts_three_locations(1) counts_shared_latitude_months(1))
qed

subsection \<open>Success and mismatch\<close>

text \<open>
  Claim C4. The file written is \<open>processed_cams_data_<today>.csv\<close> in the results
  folder, that is the folder, a backslash and that name. Provided the CSV writer accepts
  this path, \<open>validate_output\<close> returns \<open>True\<close> exactly when an expected row count is
  computed and equals the number of rows of the table, and it then has handed the table,
  unchanged, to the writer under this path. It never returns \<open>False\<close>. When the
  expected count differs from the number of rows it raises the error that carries both
  counts without any action: the writer is not called. When the writer refuses the path,
  its exception is raised in place of the result.
\<close>

theorem C4_validate_iff_counts_equal:
  "(to_csv env (folder @ [backslash] @ ''processed_cams_data_'' @ today env @ ''.csv'') = None \<longrightarrow>
      (fst (validate_output env tbl s e step folder t) = Inr True
         \<longleftrightarrow> exp_rows tbl s e step = Inr (int (length tbl)))
      \<and> (exp_rows tbl s e step = Inr (int (length tbl)) \<longrightarrow>
           snd (validate_output env tbl s e step folder t) =
             t @ [To_csv (folder @ [backslash] @ ''processed_cams_data_'' @ today env @ ''.csv'')
                    tbl,
                  Print (Row_counts (int (length tbl)) (int (length tbl))),
                  Print (Saved (folder @ [backslash] @ ''processed_cams_data_'' @ today env
                                  @ ''.csv''))]))
   \<and> fst (validate_output env tbl s e step folder t) \<noteq> Inr False
   \<and> (\<forall>n. exp_rows tbl s e step = Inr n \<and> n \<noteq> int (length tbl) \<longrightarrow>
        validate_output env tbl s e step folder t =
          (Inl (RowCountError n (int (length tbl))), t))
   \<and> (\<forall>err. to_csv env (folder @ [backslash] @ ''processed_cams_data_'' @ today env @ ''.csv'')
            = Some err \<and> exp_rows tbl s e step = Inr (int (length tbl)) \<longrightarrow>
        validate_output env tbl s e step folder t =
          (Inl err,
           t @ [To_csv (folder @ [backslash] @ ''processed_cams_data_'' @ today env @ ''.csv'')
                  tbl]))"
proof -
  have p: "output_file_name folder (today env)
      = folder @ [backslash] @ ''processed_cams_data_'' @ today env @ ''.csv''"
    by (simp add: output_file_name_def)
  show ?thesis
    unfolding p [symmetric]
    by (cases "exp_rows tbl s e step";
        cases "to_csv env (output_file_name folder (today env))")
      (auto simp: validate_output_unfold)
qed

text \<open>
  One location over the month of January 2023 with the step 1M: one row is expected. A
  table of one row is saved in the folder \<open>results\<close>; a table of two rows on one latitude
  is refused with the counts 1 and 2.
\<close>

theorem C4_validate_iff_counts_equal_witness:
  "to_csv empty_folder_env
       (''results'' @ [backslash] @ ''processed_cams_data_'' @ today empty_folder_env @ ''.csv'')
     = None
   \<and> exp_rows one_row \<lparr>year = 2023, month = 1, day = 1\<rparr>
       \<lparr>year = 2023, month = 1, day = 15\<rparr> ''1M'' = Inr (int (length one_row))
   \<and> validate_output empty_folder_env one_row \<lparr>year = 2023, month = 1, day = 1\<rparr>
       \<lparr>year = 2023, month = 1, day = 15\<rparr> ''1M'' ''results'' []
     = (Inr True,
        [To_csv (''results'' @ [backslash] @ ''processed_cams_data_2026-11-04.csv'') one_row,
         Print (Row_counts 1 1),
         Print (Saved (''results'' @ [backslash] @ ''processed_cams_data_2026-11-04.csv''))])
   \<and> exp_rows shared_latitude \<lparr>year = 2023, month = 1, day = 1\<rparr>
       \<lparr>year = 2023, month = 1, day = 15\<rparr> ''1M'' = Inr 1
   \<and> 1 \<noteq> int (length shared_latitude)
   \<and> validate_output empty_folder_env shared_latitude \<lparr>year = 2023, month = 1, day = 1\<rparr>
       \<lparr>year = 2023, month = 1, day = 15\<rparr> ''1M'' ''results'' []
     = (Inl (RowCountError 1 2), [])"
proof -
  let ?s = "\<lparr>year = 2023, month = 1, day = 1\<rparr>"
  let ?e = "\<lparr>year = 2023, month = 1, day = 15\<rparr>"
  let ?p = "''results'' @ [backslash] @ ''processed_cams_data_'' @ today empty_folder_env
      @ ''.csv''"
  have w: "to_csv empty_folder_env ?p = None" by (simp add: empty_folder_env_def)
  have p: "?p = ''results'' @ [backslash] @ ''processed_cams_data_2026-11-04.csv''"
    by (simp add: empty_folder_env_def)
  have l1: "length one_row = 1" by (rule counts_one_row(2))
  have l3: "length shared_latitude = 2" by (simp add: shared_latitude_def)
  have e1: "exp_rows one_row ?s ?e ''1M'' = Inr (int (length one_row))"
    using exp_rows_monthly [OF valid_2023_01_01 valid_2023_01_15, of one_row]
    by (simp add: counts_one_row)
  have e2: "exp_rows shared_latitude ?s ?e ''1M'' = Inr 1"
    using exp_rows_monthly [OF valid_2023_01_01 valid_2023_01_15, of shared_latitude]
    by (simp add: counts_shared_latitude(2))
  have l2: "(1::int) \<noteq> int (length shared_latitude)" by (simp add: l3)
  note a = C4_validate_iff_counts_equal [of empty_folder_env "''results''" one_row ?s ?e
      "''1M''" "[]"]
  note b = C4_validate_iff_counts_equal [of empty_folder_env "''results''" shared_latitude
      ?s ?e "''1M''" "[]"]
  from a w e1 have f: "fst (validate_output empty_folder_env one_row ?s ?e ''1M'' ''results'' [])
      = Inr True" by blast
  from a w e1 have g: "snd (validate_output empty_folder_env one_row ?s ?e ''1M'' ''results'' [])
      = [] @ [To_csv ?p one_row,
               Print (Row_counts (int (length one_row)) (int (length one_row))),
               Print (Saved ?p)]" by blast
  have c1: "validate_output empty_folder_env one_row ?s ?e ''1M'' ''results'' []
     = (Inr True,
        [To_csv (''results'' @ [backslash] @ ''processed_cams_data_2026-11-04.csv'') one_row,
         Print (Row_counts 1 1),
         Print (Saved (''results'' @ [backslash] @ ''processed_cams_data_2026-11-04.csv''))])"
    using f g unfolding p by (simp add: prod_eq_iff l1)
  from b e2 l2 have c2: "validate_output empty_folder_env shared_latitude ?s ?e ''1M''
      ''results'' [] = (Inl (RowCountError 1 (int (length shared_latitude))), [])"
    by blast
  show ?thesis using w e1 c1 e2 l2 c2 by (simp add: l1 l3)
qed

subsection \<open>The step 1d\<close>

text \<open>
  Claim C5, as amended. The dictionary of steps has the keys 1min, 15min, 1h and 1M only.
  For every table and valid dates, \<open>validate_output\<close> with the step 1d raises: the
  \<open>KeyError\<close> of the dictionary when \<open>end_date\<close> is before 9999-12-31, and the
  \<open>OverflowError\<close> of the date sum, which comes first, at 9999-12-31. In both cases
  nothing is written and the number of rows plays no role, so the error is never the
  row-count mismatch.
\<close>

theorem C5_validate_1d_key_error:
  assumes "valid_date s" and "valid_date e"
  shows "dom time_step_ref = {''1min'', ''15min'', ''1h'', ''1M''}
    \<and> validate_output env tbl s e ''1d'' folder t =
        (Inl (if e = \<lparr>year = 9999, month = 12, day = 31\<rparr> then OverflowError
              else KeyError ''1d''), t)
    \<and> (\<forall>n k. fst (validate_output env tbl s e ''1d'' folder t)
          \<noteq> Inl (RowCountError n k))"
proof -
  have d: "dom time_step_ref = {''1min'', ''15min'', ''1h'', ''1M''}"
    unfolding time_step_ref_def by (simp add: insert_commute)
  have v: "validate_output env tbl s e ''1d'' folder t =
        (Inl (if e = \<lparr>year = 9999, month = 12, day = 31\<rparr> then OverflowError
              else KeyError ''1d''), t)"
    by (simp add: validate_output_unfold exp_rows_1d [OF assms])
  from d v show ?thesis by simp
qed

text \<open>From 2023-01-01 to 2023-01-15 with the step 1d, the error is the \<open>KeyError\<close>.\<close>

theorem C5_validate_1d_key_error_witness:
  "valid_date \<lparr>year = 2023, month = 1, day = 1\<rparr>
   \<and> valid_date \<lparr>year = 2023, month = 1, day = 15\<rparr>
   \<and> validate_output empty_folder_env two_locations \<lparr>year = 2023, month = 1, day = 1\<rparr>
         \<lparr>year = 2023, month = 1, day = 15\<rparr> ''1d'' ''results'' []
       = (Inl (KeyError ''1d''), [])"
  using C5_validate_1d_key_error [OF valid_2023_01_01 valid_2023_01_15,
      of empty_folder_env two_locations "''results''" "[]"]
    valid_2023_01_01 valid_2023_01_15
  by simp

text \<open>
  Claim C5 as stated fails at \<open>end_date = 9999-12-31\<close>: the date sum of line 163 raises
  before the dictionary is read on line 164.
\<close>

theorem C5_counterexample:
  "valid_date \<lparr>year = 2023, month = 1, day = 1\<rparr>
   \<and> valid_date \<lparr>year = 9999, month = 12, day = 31\<rparr>
   \<and> validate_output empty_folder_env two_locations \<lparr>year = 2023, month = 1, day = 1\<rparr>
         \<lparr>year = 9999, month = 12, day = 31\<rparr> ''1d'' ''results'' []
       = (Inl OverflowError, [])
   \<and> fst (validate_output empty_folder_env two_locations \<lparr>year = 2023, month = 1, day = 1\<rparr>
         \<lparr>year = 9999, month = 12, day = 31\<rparr> ''1d'' ''results'' [])
       \<noteq> Inl (KeyError ''1d'')"
proof -
  have "exp_rows two_locations \<lparr>year = 2023, month = 1, day = 1\<rparr>
         \<lparr>year = 9999, month = 12, day = 31\<rparr> ''1d'' = Inl OverflowError"
    using exp_rows_1d [OF valid_2023_01_01 valid_9999_12_31, of two_locations] by simp
  then show ?thesis
    by (simp add: validate_output_unfold valid_2023_01_01 valid_9999_12_31)
qed

subsection \<open>Locations counted by latitude\<close>

text \<open>
  Claim C6. The location count from which \<open>validate_output\<close> computes the expected row
  count is the number of distinct latitude values of the table: for valid dates the expected
  count is that number times the months spanned with the step 1M, and that number times
  the floor of the minutes of the range divided by the minutes of the step with the steps
  1min, 15min and 1h (\<open>end_date\<close> before 9999-12-31). The longitudes are never read: the
  expected count is the same after any change of the Longitude column. So whenever two
  rows of the table have the same latitude and different longitudes, the location count
  used is smaller than the number of distinct (latitude, longitude) pairs.
\<close>

theorem C6_locations_counted_by_latitude:
  "(valid_date s \<and> valid_date e \<longrightarrow>
      exp_rows tbl s e ''1M'' =
        Inr (((year e - year s) * 12 + (month e - month s) + 1) * distinct_latitudes tbl))
   \<and> (valid_date s \<and> valid_date e \<and> e \<noteq> \<lparr>year = 9999, month = 12, day = 31\<rparr>
        \<and> (step, m) \<in> {(''1min'', 1), (''15min'', 15), (''1h'', 60)} \<longrightarrow>
      exp_rows tbl s e step = Inr (distinct_latitudes tbl * (inclusive_minutes s e div m)))
   \<and> (\<forall>f. exp_rows (map (\<lambda>r. r\<lparr>Longitude := f r\<rparr>) tbl) s e step = exp_rows tbl s e step)
   \<and> (r1 \<in> set tbl \<and> r2 \<in> set tbl \<and> Latitude r1 = Latitude r2
        \<and> Longitude r1 \<noteq> Longitude r2
      \<longrightarrow> distinct_latitudes tbl < distinct_locations tbl)"
proof (intro conjI allI impI)
  assume "valid_date s \<and> valid_date e"
  then show "exp_rows tbl s e ''1M'' =
        Inr (((year e - year s) * 12 + (month e - month s) + 1) * distinct_latitudes tbl)"
    by (simp add: exp_rows_monthly)
next
  assume a: "valid_date s \<and> valid_date e \<and> e \<noteq> \<lparr>year = 9999, month = 12, day = 31\<rparr>
        \<and> (step, m) \<in> {(''1min'', 1), (''15min'', 15), (''1h'', 60)}"
  then have "valid_date s" "valid_date e"
    "(step, m) \<in> {(''1min'', 1), (''15min'', 15), (''1h'', 60)}" by blast+
  from exp_rows_subdaily [OF this, of tbl] a
  show "exp_rows tbl s e step = Inr (distinct_latitudes tbl * (inclusive_minutes s e div m))"
    by simp
next
  fix f
  show "exp_rows (map (\<lambda>r. r\<lparr>Longitude := f r\<rparr>) tbl) s e step = exp_rows tbl s e step"
    by (rule exp_rows_latitudes_only) simp
next
  assume "r1 \<in> set tbl \<and> r2 \<in> set tbl \<and> Latitude r1 = Latitude r2
      \<and> Longitude r1 \<noteq> Longitude r2"
  then show "distinct_latitudes tbl < distinct_locations tbl"
    using distinct_latitudes_less by blast
qed

text \<open>
  Two locations on latitude 1, at the longitudes 5 and 6: one latitude, two locations. For
  2023-01-01 with the step 1h the expected count is 24, and over January 2023 with the
  step 1M it is 1: the count of one location in both cases.
\<close>

theorem C6_locations_counted_by_latitude_witness:
  "\<lparr>Latitude = Some 1, Longitude = Some 5, payload = ()\<rparr> \<in> set shared_latitude
   \<and> \<lparr>Latitude = Some 1, Longitude = Some 6, payload = ()\<rparr> \<in> set shared_latitude
   \<and> valid_date \<lparr>year = 2023, month = 1, day = 1\<rparr>
   \<and> valid_date \<lparr>year = 2023, month = 1, day = 15\<rparr>
   \<and> distinct_latitudes shared_latitude = 1
   \<and> distinct_locations shared_latitude = 2
   \<and> distinct_latitudes shared_latitude < distinct_locations shared_latitude
   \<and> exp_rows shared_latitude \<lparr>year = 2023, month = 1, day = 1\<rparr>
        \<lparr>year = 2023, month = 1, day = 1\<rparr> ''1h'' = Inr 24
   \<and> exp_rows shared_latitude \<lparr>year = 2023, month = 1, day = 1\<rparr>
        \<lparr>year = 2023, month = 1, day = 15\<rparr> ''1M'' = Inr 1"
proof -
  let ?r1 = "\<lparr>Latitude = Some 1, Longitude = Some 5, payload = ()\<rparr>"
  let ?r2 = "\<lparr>Latitude = Some 1, Longitude = Some 6, payload = ()\<rparr>"
  let ?d = "\<lparr>year = 2023, month = 1, day = 1\<rparr>"
  let ?e = "\<lparr>year = 2023, month = 1, day = 15\<rparr>"
  have m: "?r1 \<in> set shared_latitude" "?r2 \<in> set shared_latitude"
    by (simp_all add: shared_latitude_def)
  have st: "(''1h'', 60::int) \<in> {(''1min'', 1), (''15min'', 15), (''1h'', 60)}" by simp
  have ne: "?d \<noteq> \<lparr>year = 9999, month = 12, day = 31\<rparr>" by simp
  have i: "inclusive_minutes ?d ?d div 60 = 24" by (simp add: inclusive_minutes_def)
  note a = C6_locations_counted_by_latitude [of ?d ?d shared_latitude "''1h''" 60 ?r1 ?r2]
  note b = C6_locations_counted_by_latitude [of ?d ?e shared_latitude "''1h''" 60 ?r1 ?r2]
  from a valid_2023_01_01 ne st
  have h: "exp_rows shared_latitude ?d ?d ''1h''
      = Inr (distinct_latitudes shared_latitude * (inclusive_minutes ?d ?d div 60))"
    by blast
  from b valid_2023_01_01 valid_2023_01_15
  have mo: "exp_rows shared_latitude ?d ?e ''1M''
      = Inr (((year ?e - year ?d) * 12 + (month ?e - month ?d) + 1)
              * distinct_latitudes shared_latitude)"
    by blast
  from a m have lt: "distinct_latitudes shared_latitude < distinct_locations shared_latitude"
    by simp
  from h have h': "exp_rows shared_latitude ?d ?d ''1h'' = Inr 24"
    by (simp add: counts_shared_latitude(2) i)
  from mo have mo': "exp_rows shared_latitude ?d ?e ''1M'' = Inr 1"
    by (simp add: counts_shared_latitude(2))
  from m valid_2023_01_01 valid_2023_01_15 lt h' mo' show ?thesis
    by (simp add: counts_shared_latitude)
qed

section \<open>The fetch loop\<close>

lemma fetch_handler_raises:
  "fetch_handler e t = (Inl (NameError ''latitude''), t)"
  by (simp add: fetch_handler_def load_name_def fetch_locals_def module_globals_def bind_def
      ret_def raise_def)

lemma fetch_loop_Cons:
  "fetch_loop env ps (row # rest) cams_df t =
   (case get_cams env (Latitude row) (Longitude row) ps of
      Inl e \<Rightarrow> (Inl (NameError ''latitude''), t @ attempts ps [row])
    | Inr data \<Rightarrow> fetch_loop env ps rest (cams_df @ tag_rows row data) (t @ attempts ps [row]))"
  by (simp add: try_except_def bind_def emit_def lift_def ret_def attempts_def
      fetch_handler_raises split: sum.splits)

lemma fetch_loop_fails:
  assumes "row \<in> set rows" and "\<not> fetched env ps row"
  shows "fetch_loop env ps rows cams_df t =
    (Inl (NameError ''latitude''),
     t @ attempts ps (takeWhile (fetched env ps) rows @ [hd (dropWhile (fetched env ps) rows)]))"
  using assms
proof (induction rows arbitrary: cams_df t)
  case Nil
  then show ?case by simp
next
  case (Cons r rows)
  show ?case
  proof (cases "get_cams env (Latitude r) (Longitude r) ps")
    case (Inl e)
    then have nf: "\<not> fetched env ps r" by (simp add: fetched_def)
    show ?thesis
      using Inl nf by (simp add: fetch_loop_Cons del: fetch_loop.simps)
  next
    case (Inr data)
    then have f: "fetched env ps r" by (simp add: fetched_def)
    with Cons.prems have "row \<in> set rows" by auto
    let ?tried = "takeWhile (fetched env ps) rows @ [hd (dropWhile (fetched env ps) rows)]"
    have a: "attempts ps (r # ?tried) = attempts ps [r] @ attempts ps ?tried"
      by (simp add: attempts_def)
    from Cons.IH [OF \<open>row \<in> set rows\<close> Cons.prems(2)] Inr f show ?thesis
      by (simp add: fetch_loop_Cons a del: fetch_loop.simps)
  qed
qed

text \<open>
  Claim C7. When the remote service fails for a row of the input, \<open>fetch_cams_data\<close>
  returns no table: it raises the \<open>NameError\<close> of the unbound name \<open>latitude\<close>,
  whatever the exception of the service was. Its actions are the requests for the rows
  before the first failing one and for that row, each made once and in order: the failing
  request is not repeated, no later row is tried, and the handler prints nothing.
\<close>

theorem C7_fetch_aborts_with_name_error:
  assumes "row \<in> set solar_data"
    and "get_cams env (Latitude row) (Longitude row) ps = Inl e"
  shows "''latitude'' \<notin> set fetch_locals \<union> set module_globals
    \<and> fetch_cams_data env solar_data ps t =
        (Inl (NameError ''latitude''),
         t @ attempts ps (takeWhile (fetched env ps) solar_data
                           @ [hd (dropWhile (fetched env ps) solar_data)]))"
proof -
  have "\<not> fetched env ps row" using assms(2) by (simp add: fetched_def)
  from fetch_loop_fails [OF assms(1) this]
  show ?thesis by (simp add: fetch_cams_data_def fetch_locals_def module_globals_def)
qed

text \<open>
  Three locations with the service failing for the second: the first two are requested
  once each, the third never, and the error is the \<open>NameError\<close>.
\<close>

theorem C7_fetch_aborts_with_name_error_witness:
  "\<lparr>Latitude = Some 2, Longitude = Some 5\<rparr> \<in> set three_rows
   \<and> get_cams failing_env (Some 2) (Some 5) demo_params = Inl (RemoteError ''timed out'')
   \<and> fetch_cams_data failing_env three_rows demo_params [] =
       (Inl (NameError ''latitude''),
        [Print (Fetch_request (Some 1) (Some 5)), Get_cams (Some 1) (Some 5) demo_params,
         Print (Fetch_request (Some 2) (Some 5)), Get_cams (Some 2) (Some 5) demo_params])"
proof -
  let ?row = "\<lparr>Latitude = Some 2, Longitude = Some 5\<rparr>"
  have m: "?row \<in> set three_rows" by (simp add: three_rows_def)
  have g: "get_cams failing_env (Latitude ?row) (Longitude ?row) demo_params
      = Inl (RemoteError ''timed out'')"
    by (simp add: failing_env_def)
  have tw: "takeWhile (fetched failing_env demo_params) three_rows
      = [\<lparr>Latitude = Some 1, Longitude = Some 5\<rparr>]"
    by (simp add: three_rows_def fetched_def failing_env_def)
  have dw: "hd (dropWhile (fetched failing_env demo_params) three_rows) = ?row"
    by (simp add: three_rows_def fetched_def failing_env_def)
  from C7_fetch_aborts_with_name_error [OF m g, of "[]"] m g
  show ?thesis by (simp add: tw dw attempts_def)
qed

section \<open>The orchestrator\<close>

lemma main_handler_raises:
  "main_handler ex t = (Inl (NameError ''traceback''), t @ [Print (Main_error ex)])"
  by (simp add: main_handler_def load_name_def main_locals_def module_globals_def bind_def
      ret_def raise_def emit_def)

lemma main_of_body:
  "main env t =
     (case main_body env t of
        (Inl ex, t') \<Rightarrow> (Inl (NameError ''traceback''), t' @ [Print (Main_error ex)])
      | (Inr x, t') \<Rightarrow> (Inr x, t'))"
  by (simp add: main_def try_except_def main_handler_raises split: prod.splits sum.splits)

lemma picker_empty_folder:
  "get_file_to_process empty_folder_env ''unprocessed'' t = (Inr None, t @ [Print No_datafile])"
  by (simp add: get_file_to_process_def empty_folder_env_def try_except_def bind_def lift_def
      emit_def ret_def)

lemma load_config_demo:
  "config_json env = Inr demo_config \<Longrightarrow> load_config env t = (Inr demo_config, t)"
  by (simp add: load_config_def try_except_def lift_def)

lemma main_body_empty_folder:
  "main_body empty_folder_env [] =
     (Inl (AttributeError ''split''), [Print Cwd, Print Config_values, Print No_datafile])"
proof -
  have c: "config_json empty_folder_env = Inr demo_config" by (simp add: empty_folder_env_def)
  show ?thesis
    unfolding main_body_def
    by (simp add: bind_def emit_def load_config_demo [OF c] getitem_def demo_config_def ret_def
        raise_def picker_empty_folder)
qed


lemma main_body_header_only:
  "main_body header_only_env [] =
     (Inl (TypeError ''exceptions must derive from BaseException''),
      [Print Cwd, Print Config_values,
       Print (Path (''processed'' @ [backslash] @ ''unprocessed_data_1.csv'')),
       Print (Processing (''unprocessed'' @ [backslash] @ ''unprocessed_data_1.csv'')),
       Print Head, Print (Path ''processed'')])"
  unfolding main_body_def
  by (simp add: bind_def emit_def load_config_def try_except_def lift_def getitem_def
      demo_config_def ret_def raise_def get_file_to_process_def header_only_env_def
      backslash_def fetch_cams_data_def Let_def)

text \<open>
  Claim C8, on the code. With no entry in the unprocessed folder the picker prints its
  message and returns \<open>None\<close>. The run then calls \<open>split\<close> on that \<open>None\<close>, the
  handler of \<open>main\<close> prints the \<open>AttributeError\<close> and fails on the unbound name
  \<open>traceback\<close>: the run ends with a \<open>NameError\<close>, not as a completed no-op. Nothing
  was fetched, written or renamed.
\<close>

theorem C8_no_pending_file_run:
  "get_file_to_process empty_folder_env ''unprocessed'' [] = (Inr None, [Print No_datafile])
   \<and> main empty_folder_env [] =
       (Inl (NameError ''traceback''),
        [Print Cwd, Print Config_values, Print No_datafile,
         Print (Main_error (AttributeError ''split''))])"
  by (simp add: picker_empty_folder main_of_body main_body_empty_folder)

text \<open>
  Claim C9, on the code. When the pending file has no rows, the fetch returns a table of
  zero rows and the run goes neither to the validation nor to the archiving. The error
  raised for it is not an empty-result error: the \<open>raise\<close> of a plain string is a
  \<open>TypeError\<close>, which the handler prints before it fails on the unbound name
  \<open>traceback\<close>.
\<close>

theorem C9_empty_fetch_run:
  "fetch_cams_data header_only_env [] demo_params [] = (Inr [], [])
   \<and> main header_only_env [] =
       (Inl (NameError ''traceback''),
        [Print Cwd, Print Config_values,
         Print (Path (''processed'' @ [backslash] @ ''unprocessed_data_1.csv'')),
         Print (Processing (''unprocessed'' @ [backslash] @ ''unprocessed_data_1.csv'')),
         Print Head, Print (Path ''processed''),
         Print (Main_error (TypeError ''exceptions must derive from BaseException''))])"
  by (simp add: main_of_body main_body_header_only fetch_cams_data_def ret_def)

text \<open>
  Claim C10. The name \<open>traceback\<close> is bound neither in \<open>main\<close> nor in the module.
  Whenever the body of \<open>main\<close> raises an exception, the handler prints its message and
  \<open>main\<close> itself ends with the \<open>NameError\<close> of \<open>traceback\<close>.
\<close>

theorem C10_handler_raises_name_error:
  "''traceback'' \<notin> set main_locals \<union> set module_globals
   \<and> (main_body env t = (Inl ex, t') \<longrightarrow>
        main env t = (Inl (NameError ''traceback''), t' @ [Print (Main_error ex)]))"
  by (simp add: main_of_body main_locals_def module_globals_def)

text \<open>Without a readable \<open>config.json\<close> the run ends with the \<open>NameError\<close>.\<close>

theorem C10_handler_raises_name_error_witness:
  "main_body no_config_env [] =
     (Inl (OSError ''config.json''),
      [Print Cwd, Print (Load_config_error (OSError ''config.json''))])
   \<and> main no_config_env [] =
     (Inl (NameError ''traceback''),
      [Print Cwd, Print (Load_config_error (OSError ''config.json'')),
       Print (Main_error (OSError ''config.json''))])"
proof -
  have b: "main_body no_config_env [] =
     (Inl (OSError ''config.json''),
      [Print Cwd, Print (Load_config_error (OSError ''config.json''))])"
    unfolding main_body_def
    by (simp add: bind_def emit_def load_config_def try_except_def lift_def raise_def
        no_config_env_def)
  from C10_handler_raises_name_error [of no_config_env "[]" "OSError ''config.json''"
      "[Print Cwd, Print (Load_config_error (OSError ''config.json''))]"] b
  show ?thesis by simp
qed

section \<open>Chunking\<close>

lemma digits_value_snoc:
  "digits_value (s @ [ch]) = 10 * digits_value s + (of_char ch - 48)"
  by (simp add: digits_value_def)

lemma of_char_digit_char: "d < 10 \<Longrightarrow> of_char (digit_char d) = 48 + d"
  by (simp add: digit_char_def)

lemma digits_value_str_nat: "digits_value (str_nat n) = n"
proof (induction n rule: str_nat.induct)
  case (1 n)
  show ?case
  proof (cases "n < 10")
    case True
    then show ?thesis
      by (subst str_nat.simps) (simp add: digits_value_def of_char_digit_char)
  next
    case False
    have m: "n mod 10 < 10" by simp
    from False "1.IH" have "digits_value (str_nat (n div 10)) = n div 10" by simp
    with False show ?thesis
      by (subst str_nat.simps) (simp add: digits_value_snoc of_char_digit_char [OF m])
  qed
qed

lemma str_nat_inj:
  assumes "str_nat a = str_nat b"
  shows "a = b"
proof -
  have "digits_value (str_nat a) = digits_value (str_nat b)" by (simp only: assms)
  then show ?thesis by (simp only: digits_value_str_nat)
qed

lemma chunk_file_name_examples:
  "chunk_file_name 1 = ''unprocessed_data_1.csv''"
  "chunk_file_name 3 = ''unprocessed_data_3.csv''"
  "chunk_file_name 12 = ''unprocessed_data_12.csv''"
  by code_simp+

lemma chunk_file_name_inj: "chunk_file_name a = chunk_file_name b \<longleftrightarrow> a = b"
  using str_nat_inj by (auto simp: chunk_file_name_def)

lemma range_count_step:
  assumes "0 < c" and "a < n"
  shows "(n - a + c - 1) div c = Suc ((n - (a + c) + c - 1) div c)"
proof (cases "n \<le> a + c")
  case True
  have "(n - a + c - 1) div c = 1"
  proof (rule div_nat_eqI)
    show "c * 1 \<le> n - a + c - 1" using assms by arith
    show "n - a + c - 1 < c * Suc 1" using True assms by arith
  qed
  moreover have "(n - (a + c) + c - 1) div c = 0" using True assms by simp
  ultimately show ?thesis by simp
next
  case False
  then have "n - a + c - 1 = (n - (a + c) + c - 1) + c" using assms by arith
  then have "(n - a + c - 1) div c = ((n - (a + c) + c - 1) + c) div c" by simp
  also have "\<dots> = (n - (a + c) + c - 1) div c + 1"
    by (rule div_add_self2) (use assms in simp)
  finally show ?thesis by simp
qed

lemma py_range_closed:
  "0 < c \<Longrightarrow> py_range a n c = map (\<lambda>j. a + j * c) [0..<(n - a + c - 1) div c]"
proof (induction a n c rule: py_range.induct)
  case (1 a n c)
  show ?case
  proof (cases "a < n")
    case False
    then have "(n - a + c - 1) div c = 0" using "1.prems" by simp
    with False show ?thesis by (subst py_range.simps) simp
  next
    case True
    define k where "k = (n - (a + c) + c - 1) div c"
    have k: "(n - a + c - 1) div c = Suc k"
      unfolding k_def by (rule range_count_step [OF "1.prems" True])
    from "1.IH" True "1.prems"
    have ih: "py_range (a + c) n c = map (\<lambda>j. a + c + j * c) [0..<k]" by (simp add: k_def)
    have "map (\<lambda>j. a + j * c) [0..<Suc k] = a # map (\<lambda>j. a + c + j * c) [0..<k]"
      by (simp add: upt_conv_Cons map_Suc_upt [symmetric] add.assoc del: upt_Suc)
    with ih True "1.prems" k show ?thesis by (subst py_range.simps) simp
  qed
qed

lemma chunk_loop_fold:
  "chunk_loop ps df fs l =
     (fold (\<lambda>(i, start) f. f(chunk_file_name (i + 1) \<mapsto> iloc df start (start + chunk_size)))
        ps fs,
      if ps = [] then l else Some (fst (last ps)))"
  by (induction ps arbitrary: fs l) auto

lemma enumerate_starts:
  "enumerate 0 (map f [0..<k]) = map (\<lambda>j. (j, f j)) [0..<k]"
  by (simp add: enumerate_eq_zip zip_map2 zip_same_conv_map)

lemma fold_update_other:
  "x \<notin> key ` set js \<Longrightarrow> fold (\<lambda>j f. f(key j \<mapsto> val j)) js fs x = fs x"
  by (induction js arbitrary: fs) auto

lemma fold_update_here:
  assumes "inj_on key (set js)" and "distinct js" and "j \<in> set js"
  shows "fold (\<lambda>j f. f(key j \<mapsto> val j)) js fs (key j) = Some (val j)"
  using assms
proof (induction js arbitrary: fs)
  case Nil
  then show ?case by simp
next
  case (Cons a js)
  show ?case
  proof (cases "j = a")
    case True
    have "key a \<notin> key ` set js"
      using Cons.prems(1,2) by (auto simp: inj_on_def)
    from fold_update_other [OF this, of val "fs(key a \<mapsto> val a)"]
    have h: "fold (\<lambda>j f. f(key j \<mapsto> val j)) js (fs(key a \<mapsto> val a)) (key a)
        = Some (val a)" by simp
    show ?thesis unfolding True by (simp only: fold_simps comp_apply h)
  next
    case False
    with Cons.prems have "j \<in> set js" "inj_on key (set js)" "distinct js" by auto
    then show ?thesis using Cons.IH by simp
  qed
qed

lemma chunk_data_fold:
  "chunk_data df fs =
     (let k = (length df + 99) div 100;
          fs' = fold (\<lambda>j f. f(chunk_file_name (j + 1) \<mapsto> take 100 (drop (j * 100) df)))
                  [0..<k] fs
      in if k = 0 then (Inl (UnboundLocalError ''i''), fs') else (Inr k, fs'))"
proof -
  define k where "k = (length df + 99) div 100"
  have r: "py_range 0 (length df) chunk_size = map (\<lambda>j. j * 100) [0..<k]"
    by (simp add: py_range_closed chunk_size_def k_def add.commute)
  have e: "enumerate 0 (py_range 0 (length df) chunk_size) = map (\<lambda>j. (j, j * 100)) [0..<k]"
    unfolding r by (rule enumerate_starts)
  have f: "fold (\<lambda>(i, start) f. f(chunk_file_name (i + 1) \<mapsto> iloc df start (start + chunk_size)))
        (map (\<lambda>j. (j, j * 100)) [0..<k]) fs
      = fold (\<lambda>j f. f(chunk_file_name (j + 1) \<mapsto> take 100 (drop (j * 100) df))) [0..<k] fs"
    by (simp add: fold_map comp_def iloc_def chunk_size_def)
  have l: "k \<noteq> 0 \<Longrightarrow> fst (last (map (\<lambda>j. (j, j * 100)) [0..<k])) = k - 1"
    by (cases k) (simp_all add: last_map)
  show ?thesis
    unfolding chunk_data_def e chunk_loop_fold f k_def [symmetric] Let_def
    using l by (cases "k = 0") simp_all
qed

lemma concat_blocks:
  "concat (map (\<lambda>j. take c (drop (j * c) xs)) [0..<k]) = take (k * c) xs"
proof (induction k)
  case 0
  then show ?case by simp
next
  case (Suc k)
  have "take (k * c + c) xs = take (k * c) xs @ take c (drop (k * c) xs)"
    by (rule take_add)
  with Suc show ?case by (simp add: add.commute)
qed

lemma chunk_count_ceiling:
  "int ((n + 99) div 100) = \<lceil>real n / 100\<rceil>"
proof -
  define k where "k = (n + 99) div 100"
  have m: "n + 99 = 100 * k + (n + 99) mod 100" by (simp add: k_def)
  have m': "(n + 99) mod 100 < 100" by simp
  from m m' have a: "n \<le> 100 * k" and b: "100 * k < n + 100" by linarith+
  from a have "real n \<le> real (100 * k)" by (simp only: of_nat_le_iff)
  then have a': "real n \<le> 100 * real k" by simp
  from b have "real (100 * k) < real (n + 100)" by (simp only: of_nat_less_iff)
  then have b': "100 * real k < real n + 100" by simp
  have "\<lceil>real n / 100\<rceil> = int k"
  proof (rule ceiling_unique)
    show "of_int (int k) - 1 < real n / 100" using b' by simp
    show "real n / 100 \<le> of_int (int k)" using a' by simp
  qed
  then show ?thesis by (simp add: k_def)
qed

lemma chunk_count_bounds:
  fixes n :: nat
  assumes "1 \<le> n"
  shows "1 \<le> (n + 99) div 100" and "n \<le> 100 * ((n + 99) div 100)"
    and "100 * ((n + 99) div 100 - 1) < n"
proof -
  define k where "k = (n + 99) div 100"
  have m: "n + 99 = 100 * k + (n + 99) mod 100" by (simp add: k_def)
  have m': "(n + 99) mod 100 < 100" by simp
  from m m' assms show "1 \<le> (n + 99) div 100" "n \<le> 100 * ((n + 99) div 100)"
    "100 * ((n + 99) div 100 - 1) < n"
    unfolding k_def [symmetric] by linarith+
qed

lemma chunk_data_files:
  fixes df :: "'r list" and folder :: "'r folder"
  assumes "1 \<le> length df"
  defines "k \<equiv> (length df + 99) div 100"
  defines "folder' \<equiv> snd (chunk_data df folder)"
  shows "chunk_data df folder = (Inr k, folder')"
    and "\<And>i. 1 \<le> i \<Longrightarrow> i \<le> k \<Longrightarrow>
      folder' (chunk_file_name i) = Some (take 100 (drop ((i - 1) * 100) df))"
    and "\<And>name. name \<notin> chunk_file_name ` {1..k} \<Longrightarrow> folder' name = folder name"
proof -
  let ?key = "\<lambda>j. chunk_file_name (j + 1)"
  let ?val = "\<lambda>j. take 100 (drop (j * 100) df)"
  have k1: "1 \<le> k" unfolding k_def by (rule chunk_count_bounds(1) [OF assms(1)])
  have c: "chunk_data df folder = (Inr k, fold (\<lambda>j f. f(?key j \<mapsto> ?val j)) [0..<k] folder)"
    using k1 by (simp add: chunk_data_fold Let_def k_def)
  then have f: "folder' = fold (\<lambda>j f. f(?key j \<mapsto> ?val j)) [0..<k] folder"
    by (simp add: folder'_def)
  show "chunk_data df folder = (Inr k, folder')" using c f by simp
  have inj: "inj_on ?key (set [0..<k])"
    by (rule inj_onI) (simp add: chunk_file_name_inj)
  show "folder' (chunk_file_name i) = Some (take 100 (drop ((i - 1) * 100) df))"
    if "1 \<le> i" and "i \<le> k" for i
  proof -
    from that have j: "i - 1 \<in> set [0..<k]" and i: "Suc (i - Suc 0) = i" by simp_all
    from fold_update_here [of ?key "[0..<k]" "i - 1" ?val folder, OF inj _ j]
    show ?thesis unfolding f by (simp add: i)
  qed
  show "folder' name = folder name" if "name \<notin> chunk_file_name ` {1..k}" for name
  proof -
    have "?key ` set [0..<k] \<subseteq> chunk_file_name ` {1..k}" by auto
    with that have "name \<notin> ?key ` set [0..<k]" by blast
    then show ?thesis unfolding f by (rule fold_update_other)
  qed
qed

lemma read_chunks_blocks:
  assumes "\<And>i. 1 \<le> i \<Longrightarrow> i \<le> k \<Longrightarrow>
      folder (chunk_file_name i) = Some (take c (drop ((i - 1) * c) df))"
  shows "read_chunks folder k = take (k * c) df"
proof -
  have "(case folder (chunk_file_name i) of None \<Rightarrow> [] | Some rows \<Rightarrow> rows)
      = take c (drop ((i - 1) * c) df)" if "i \<in> set [1..<Suc k]" for i
  proof -
    from that have "1 \<le> i" and "i \<le> k" by auto
    from assms [OF this] show ?thesis by simp
  qed
  then have "map (\<lambda>i. case folder (chunk_file_name i) of None \<Rightarrow> [] | Some rows \<Rightarrow> rows) [1..<Suc k]
      = map (\<lambda>i. take c (drop ((i - 1) * c) df)) [1..<Suc k]"
    by (intro map_cong refl)
  also have "\<dots> = map (\<lambda>j. take c (drop (j * c) df)) [0..<k]"
    by (simp add: map_Suc_upt [symmetric] del: upt_Suc)
  finally show ?thesis by (simp add: read_chunks_def concat_blocks del: upt_Suc)
qed

text \<open>
  Claim C2. For a table of at least one row, \<open>chunk_data\<close> returns the ceiling of the
  number of rows divided by 100. For every \<open>i\<close> from 1 to that count, the file
  \<open>unprocessed_data_<i>.csv\<close> of the output folder then holds the rows from position
  \<open>100 (i - 1)\<close> on, at most 100 of them, in the order of the table; every other entry
  of the folder is as before. Every file but the last holds 100 rows, the last one between
  1 and 100. The files read back in index order give the rows of the table, and a table of
  250 rows gives three files of 100, 100 and 50 rows.
\<close>

theorem C2_chunk_data_partition:
  fixes df :: "'r list" and folder :: "'r folder"
  assumes "1 \<le> length df"
  shows "\<exists>k folder'.
      chunk_data df folder = (Inr k, folder')
    \<and> int k = \<lceil>real (length df) / 100\<rceil>
    \<and> (\<forall>i\<in>{1..k}. chunk_file_name i = ''unprocessed_data_'' @ str_nat i @ ''.csv''
          \<and> folder' (chunk_file_name i) = Some (take 100 (drop ((i - 1) * 100) df)))
    \<and> (\<forall>name. name \<notin> chunk_file_name ` {1..k} \<longrightarrow> folder' name = folder name)
    \<and> (\<forall>i\<in>{1..<k}. map_option length (folder' (chunk_file_name i)) = Some 100)
    \<and> (\<exists>n. map_option length (folder' (chunk_file_name k)) = Some n \<and> 1 \<le> n \<and> n \<le> 100)
    \<and> read_chunks folder' k = df
    \<and> (length df = 250 \<longrightarrow>
          k = 3 \<and> map (\<lambda>i. map_option length (folder' (chunk_file_name i))) [1, 2, 3]
                    = [Some 100, Some 100, Some 50])"
proof -
  define k where "k = (length df + 99) div 100"
  define folder' where "folder' = snd (chunk_data df folder)"
  note files = chunk_data_files [OF assms, where folder = folder, folded k_def folder'_def]
  note bounds = chunk_count_bounds [OF assms, folded k_def]
  have content: "folder' (chunk_file_name i) = Some (take 100 (drop ((i - 1) * 100) df))"
    if "i \<in> {1..k}" for i
    using that files(2) by simp
  have a: "chunk_data df folder = (Inr k, folder')" by (rule files(1))
  have b: "int k = \<lceil>real (length df) / 100\<rceil>"
    unfolding k_def by (rule chunk_count_ceiling)
  have c: "\<forall>i\<in>{1..k}. chunk_file_name i = ''unprocessed_data_'' @ str_nat i @ ''.csv''
          \<and> folder' (chunk_file_name i) = Some (take 100 (drop ((i - 1) * 100) df))"
    using content by (simp add: chunk_file_name_def)
  have d: "\<forall>name. name \<notin> chunk_file_name ` {1..k} \<longrightarrow> folder' name = folder name"
    using files(3) by blast
  have e: "\<forall>i\<in>{1..<k}. map_option length (folder' (chunk_file_name i)) = Some 100"
  proof
    fix i assume i: "i \<in> {1..<k}"
    then have "i \<in> {1..k}" by simp
    from content [OF this] have
      "map_option length (folder' (chunk_file_name i)) = Some (min (length df - (i - 1) * 100) 100)"
      by simp
    moreover have "(i - 1) * 100 + 100 \<le> length df"
      using i bounds(3) unfolding atLeastLessThan_iff by arith
    ultimately show "map_option length (folder' (chunk_file_name i)) = Some 100" by simp
  qed
  have f: "\<exists>n. map_option length (folder' (chunk_file_name k)) = Some n \<and> 1 \<le> n \<and> n \<le> 100"
  proof -
    have "k \<in> {1..k}" using bounds(1) by simp
    from content [OF this] have
      "map_option length (folder' (chunk_file_name k)) = Some (min (length df - (k - 1) * 100) 100)"
      by simp
    moreover have "1 \<le> min (length df - (k - 1) * 100) 100" using bounds(3) by simp
    moreover have "min (length df - (k - 1) * 100) 100 \<le> 100" by simp
    ultimately show ?thesis by blast
  qed
  have g: "read_chunks folder' k = df"
  proof -
    have "read_chunks folder' k = take (k * 100) df"
      by (rule read_chunks_blocks) (simp add: content)
    then show ?thesis using bounds(2) by (simp add: mult.commute)
  qed
  have h: "length df = 250 \<longrightarrow>
          k = 3 \<and> map (\<lambda>i. map_option length (folder' (chunk_file_name i))) [1, 2, 3]
                    = [Some 100, Some 100, Some 50]"
  proof
    assume l: "length df = 250"
    then have k3: "k = 3" by (simp add: k_def)
    have "folder' (chunk_file_name 1) = Some (take 100 (drop ((1 - 1) * 100) df))"
      "folder' (chunk_file_name 2) = Some (take 100 (drop ((2 - 1) * 100) df))"
      "folder' (chunk_file_name 3) = Some (take 100 (drop ((3 - 1) * 100) df))"
      by (rule content, simp add: k3)+
    with l k3 show "k = 3 \<and> map (\<lambda>i. map_option length (folder' (chunk_file_name i))) [1, 2, 3]
                    = [Some 100, Some 100, Some 50]"
      by simp
  qed
  show ?thesis
    by (rule exI [of _ k], rule exI [of _ folder'], intro conjI) (rule a b c d e f g h)+
qed

text \<open>
  The numbers 0 to 249 as a table of 250 rows, written to an empty folder: three files of
  100, 100 and 50 rows that read back as the table.
\<close>

theorem C2_chunk_data_partition_witness:
  "1 \<le> length numbered_rows
   \<and> fst (chunk_data numbered_rows Map.empty) = Inr 3
   \<and> map (\<lambda>i. map_option length (snd (chunk_data numbered_rows Map.empty) (chunk_file_name i)))
        [1, 2, 3] = [Some 100, Some 100, Some 50]
   \<and> read_chunks (snd (chunk_data numbered_rows Map.empty)) 3 = numbered_rows"
proof -
  have l: "1 \<le> length numbered_rows" and l': "length numbered_rows = 250"
    by (simp_all add: numbered_rows_def)
  from C2_chunk_data_partition [OF l, where folder = Map.empty] l l'
  show ?thesis by (elim exE conjE) simp
qed

end
